theory Spec2Isabelle
  imports Main "HOL-Library.Sublist" "HOL-Library.Multiset" "HOL-Library.Word"
begin

section \<open>The validation controller of the glTF viewer\<close>

text \<open>
  A shallow embedding of \<^verbatim>\<open>ValidationController\<close> (the validation-report pipeline of
  the viewer): the asset resolver \<^verbatim>\<open>resolveExternalResource\<close>, the runner
  \<^verbatim>\<open>validate\<close>, the normalizer \<^verbatim>\<open>setReport\<close> with its local function
  \<^verbatim>\<open>groupMessages\<close>, and the presenter (\<^verbatim>\<open>setReportException\<close>,
  \<^verbatim>\<open>showLightbox\<close>).

  JavaScript strings are modelled as \<^typ>\<open>string\<close>, numbers that count things as
  \<^typ>\<open>nat\<close> or \<^typ>\<open>int\<close>, a property that may be absent (\<^verbatim>\<open>undefined\<close>) as an
  \<^typ>\<open>'a option\<close>, a plain object used as a dictionary as an association list in
  property-creation order, a rejected promise or a thrown exception as the left
  summand of a sum type. The promise chains of the source run one step after the
  other, so they are modelled as sequential composition of fallible steps.
\<close>

subsection \<open>Messages and JavaScript helpers\<close>

text \<open>
  A message of the validator: \<^verbatim>\<open>{code, pointer, severity, message}\<close>. The validator
  omits \<^verbatim>\<open>pointer\<close> on some messages, and the synthetic messages that
  \<^verbatim>\<open>groupMessages\<close> builds have no \<^verbatim>\<open>severity\<close>.
\<close>

record gltf_message =
  code :: string
  pointer :: "string option"
  severity :: "int option"
  message :: string

text \<open>
  A plain object used as a dictionary. Keys are kept in the order in which the
  properties were created, which is the order \<^verbatim>\<open>Object.keys\<close> enumerates them in.
  The keys of this program are validator codes (upper-case identifiers) and JSON
  pointers (empty or starting with \<^verbatim>\<open>/\<close>): none of them is an array index, which
  \<^verbatim>\<open>Object.keys\<close> would move to the front, or a name inherited from
  \<^verbatim>\<open>Object.prototype\<close>, so a lookup sees own properties only.
\<close>

type_synonym 'v js_object = "(string \<times> 'v) list"

definition getProperty :: "'v js_object \<Rightarrow> string \<Rightarrow> 'v option" where
  "getProperty obj k = map_of obj k"

fun setProperty :: "'v js_object \<Rightarrow> string \<Rightarrow> 'v \<Rightarrow> 'v js_object" where
  "setProperty [] k v = [(k, v)]"
| "setProperty ((k', v') # ps) k v =
     (if k' = k then (k, v) # ps else (k', v') # setProperty ps k v)"

definition objectKeys :: "'v js_object \<Rightarrow> string list" where
  "objectKeys obj = map fst obj"

text \<open>The key a property access \<^verbatim>\<open>obj[message.pointer]\<close> uses: an absent pointer is
  converted to the string \<^verbatim>\<open>"undefined"\<close>.\<close>

definition propertyKey :: "string option \<Rightarrow> string" where
  "propertyKey p = (case p of None \<Rightarrow> ''undefined'' | Some s \<Rightarrow> s)"

text \<open>\<^verbatim>\<open>String(n)\<close> for a natural number: its decimal digits.\<close>

fun numberToString :: "nat \<Rightarrow> string" where
  "numberToString n =
     (if n < 10 then [''0123456789'' ! n]
      else numberToString (n div 10) @ [''0123456789'' ! (n mod 10)])"

text \<open>\<^verbatim>\<open>s.replace(pat, rep)\<close> with a string pattern: the first occurrence of
  \<^verbatim>\<open>pat\<close> in \<^verbatim>\<open>s\<close>, wherever it stands, is replaced; without an occurrence
  \<^verbatim>\<open>s\<close> is returned as it is. (The replacements of this program, a number and the
  empty string, hold no \<^verbatim>\<open>$\<close> pattern.)\<close>

fun replaceFirst :: "string \<Rightarrow> string \<Rightarrow> string \<Rightarrow> string" where
  "replaceFirst pat rep [] = (if pat = [] then rep else [])"
| "replaceFirst pat rep (c # s) =
     (if prefix pat (c # s) then rep @ drop (length pat) (c # s)
      else c # replaceFirst pat rep s)"

subsection \<open>Error aggregation: \<^verbatim>\<open>groupMessages\<close>\<close>

text \<open>An entry of the local table \<^verbatim>\<open>CODES\<close>: the text template (the source's
  field \<^verbatim>\<open>message\<close>) and the counts per pointer.\<close>

record aggregate =
  messageTemplate :: string
  pointerCounts :: "nat js_object"

definition CODES :: "aggregate js_object" where
  "CODES =
     [(''ACCESSOR_NON_UNIT'',
        \<lparr>messageTemplate = ''{count} accessor elements not of unit length: 0. [AGGREGATED]'',
         pointerCounts = []\<rparr>),
      (''ACCESSOR_ANIMATION_INPUT_NON_INCREASING'',
        \<lparr>messageTemplate =
           ''{count} animation input accessor elements not in ascending order. [AGGREGATED]'',
         pointerCounts = []\<rparr>)]"

text \<open>\<^verbatim>\<open>!pointerCounts[p]\<close>: true when the property is absent or zero.\<close>

definition falsyCount :: "nat option \<Rightarrow> bool" where
  "falsyCount c = (case c of None \<Rightarrow> True | Some n \<Rightarrow> n = 0)"

text \<open>The old value that \<^verbatim>\<open>pointerCounts[p]++\<close> reads. The increment runs after
  the initialisation above it, so the property is present there.\<close>

definition readCount :: "nat option \<Rightarrow> nat" where
  "readCount c = (case c of None \<Rightarrow> 0 | Some n \<Rightarrow> n)"

text \<open>The body of the first \<^verbatim>\<open>forEach\<close>: count one message.\<close>

definition countMessage :: "aggregate js_object \<Rightarrow> gltf_message \<Rightarrow> aggregate js_object" where
  "countMessage codes m =
     (case getProperty codes (code m) of
        None \<Rightarrow> codes
      | Some entry \<Rightarrow>
          let k = propertyKey (pointer m);
              pc = pointerCounts entry;
              pc0 = (if falsyCount (getProperty pc k) then setProperty pc k 0 else pc);
              pc1 = setProperty pc0 k (readCount (getProperty pc0 k) + 1)
          in setProperty codes (code m) (entry\<lparr>pointerCounts := pc1\<rparr>))"

definition countMessages :: "gltf_message list \<Rightarrow> aggregate js_object" where
  "countMessages errs = foldl countMessage CODES errs"

text \<open>The predicate of the \<^verbatim>\<open>filter\<close>: which messages stay.\<close>

definition keepMessage :: "aggregate js_object \<Rightarrow> gltf_message \<Rightarrow> bool" where
  "keepMessage codes m =
     (case getProperty codes (code m) of
        None \<Rightarrow> True
      | Some entry \<Rightarrow>
          (case getProperty (pointerCounts entry) (propertyKey (pointer m)) of
             None \<Rightarrow> True
           | Some n \<Rightarrow> if n = 0 then True else n < 2))"

text \<open>The object pushed for one code and one pointer: the template with its first
  \<^verbatim>\<open>{count}\<close> replaced by the count.\<close>

definition syntheticMessage :: "string \<Rightarrow> string \<Rightarrow> string \<Rightarrow> nat \<Rightarrow> gltf_message" where
  "syntheticMessage c p template n =
     \<lparr>code = c, pointer = Some p, severity = None,
      message = replaceFirst ''{count}'' (numberToString n) template\<rparr>"

text \<open>The two nested \<^verbatim>\<open>Object.keys(...).forEach\<close> loops: one object per code of
  the table and per pointer counted for it, whatever the count.\<close>

definition pushedMessages :: "aggregate js_object \<Rightarrow> gltf_message list" where
  "pushedMessages codes =
     concat (map (\<lambda>c.
        case getProperty codes c of
          None \<Rightarrow> []
        | Some entry \<Rightarrow>
            map (\<lambda>p. syntheticMessage c p (messageTemplate entry)
                       (readCount (getProperty (pointerCounts entry) p)))
              (objectKeys (pointerCounts entry)))
       (objectKeys codes))"

definition groupMessages :: "gltf_message list \<Rightarrow> gltf_message list" where
  "groupMessages errs =
     (let codes = countMessages errs
      in filter (keepMessage codes) errs @ pushedMessages codes)"

subsection \<open>What the aggregation computes, in closed form\<close>

text \<open>How often a code occurs with a pointer (as a property key) in a sequence of
  messages.\<close>

definition occurrences :: "gltf_message list \<Rightarrow> string \<Rightarrow> string \<Rightarrow> nat" where
  "occurrences errs c p =
     length (filter (\<lambda>m. code m = c \<and> propertyKey (pointer m) = p) errs)"

text \<open>The distinct elements of a list, in the order of their first occurrence.\<close>

fun firstOccurrences :: "'a list \<Rightarrow> 'a list" where
  "firstOccurrences [] = []"
| "firstOccurrences (x # xs) = x # removeAll x (firstOccurrences xs)"

text \<open>The pointers that occur with a code, in the order of their first occurrence.\<close>

definition countedPointers :: "gltf_message list \<Rightarrow> string \<Rightarrow> string list" where
  "countedPointers errs c =
     firstOccurrences (map (\<lambda>m. propertyKey (pointer m)) (filter (\<lambda>m. code m = c) errs))"

definition countsOf :: "gltf_message list \<Rightarrow> string \<Rightarrow> nat js_object" where
  "countsOf errs c = map (\<lambda>p. (p, occurrences errs c p)) (countedPointers errs c)"

definition countedCodes :: "gltf_message list \<Rightarrow> aggregate js_object" where
  "countedCodes errs =
     map (\<lambda>(c, entry). (c, entry\<lparr>pointerCounts := countsOf errs c\<rparr>)) CODES"

subsection \<open>Reports and the generator registry\<close>

text \<open>The validator's report, as far as \<^verbatim>\<open>setReport\<close> reads it:
  \<^verbatim>\<open>report.info.generator\<close> and \<^verbatim>\<open>report.issues\<close> with its four counts and its
  messages.\<close>

record report_info =
  info_generator :: "string option"

record report_issues =
  numErrors :: int
  numWarnings :: int
  numInfos :: int
  numHints :: int
  messages :: "gltf_message list"

record raw_report =
  info :: "report_info option"
  issues :: report_issues

text \<open>An entry of \<^verbatim>\<open>registry.generators\<close>. The registry is one shared array of
  objects: \<^verbatim>\<open>setReport\<close> writes to the entry it finds, and the report keeps a
  reference to it. The model keeps the array in the state and a reference as an index
  into it.\<close>

record tool =
  generator :: string
  name :: string
  author :: string

text \<open>The report after \<^verbatim>\<open>setReport\<close>: the fields the source adds to the report
  object (\<^verbatim>\<open>generator\<close>, \<^verbatim>\<open>issues.maxSeverity\<close>, \<^verbatim>\<open>errors\<close>,
  \<^verbatim>\<open>warnings\<close>, \<^verbatim>\<open>infos\<close>, \<^verbatim>\<open>hints\<close>) beside the validator's own.\<close>

record normalized_report =
  validated :: raw_report
  report_generator :: "nat option"
  maxSeverity :: int
  errors :: "gltf_message list"
  warnings :: "gltf_message list"
  infos :: "gltf_message list"
  hints :: "gltf_message list"

definition SEVERITY_MAP :: "string list" where
  "SEVERITY_MAP = [''Errors'', ''Warnings'', ''Infos'', ''Hints'']"

text \<open>\<^verbatim>\<open>report.issues[key]\<close> for a computed key.\<close>

definition issuesProperty :: "report_issues \<Rightarrow> string \<Rightarrow> int option" where
  "issuesProperty i k =
     (if k = ''numErrors'' then Some (numErrors i)
      else if k = ''numWarnings'' then Some (numWarnings i)
      else if k = ''numInfos'' then Some (numInfos i)
      else if k = ''numHints'' then Some (numHints i)
      else None)"

text \<open>\<^verbatim>\<open>x > 0\<close> for a number or \<^verbatim>\<open>undefined\<close>.\<close>

definition greaterThanZero :: "int option \<Rightarrow> bool" where
  "greaterThanZero x = (case x of None \<Rightarrow> False | Some n \<Rightarrow> 0 < n)"

text \<open>The body of \<^verbatim>\<open>SEVERITY_MAP.forEach((severity, index) => ...)\<close>, on the
  current value of \<^verbatim>\<open>report.issues.maxSeverity\<close> (the source's parameter
  \<^verbatim>\<open>severity\<close> is \<open>level\<close> here).\<close>

definition severityStep :: "report_issues \<Rightarrow> int \<Rightarrow> nat \<times> string \<Rightarrow> int" where
  "severityStep i current entry =
     (case entry of (index, level) \<Rightarrow>
        if greaterThanZero (issuesProperty i (''num'' @ level)) \<and> current = - 1
        then int index else current)"

definition computeMaxSeverity :: "report_issues \<Rightarrow> int" where
  "computeMaxSeverity i = foldl (severityStep i) (- 1) (enumerate 0 SEVERITY_MAP)"

text \<open>The four \<^verbatim>\<open>filter\<close> calls on \<^verbatim>\<open>report.issues.messages\<close>
  (\<^verbatim>\<open>msg.severity === n\<close>).\<close>

definition bySeverity :: "int \<Rightarrow> gltf_message list \<Rightarrow> gltf_message list" where
  "bySeverity n msgs = filter (\<lambda>msg. severity msg = Some n) msgs"

text \<open>\<^verbatim>\<open>report && report.info && report.info.generator || ''\<close>.\<close>

definition generatorID :: "raw_report \<Rightarrow> string" where
  "generatorID r =
     (case info r of
        None \<Rightarrow> ''''
      | Some i \<Rightarrow> (case info_generator i of None \<Rightarrow> '''' | Some g \<Rightarrow> g))"

text \<open>The predicate given to \<^verbatim>\<open>registry.generators.find\<close>. The first argument is
  \<^verbatim>\<open>glob(pattern).test(s)\<close> of the library glob-to-regexp, which is not part of
  the sources.\<close>

definition matchesGenerator :: "(string \<Rightarrow> string \<Rightarrow> bool) \<Rightarrow> string \<Rightarrow> tool \<Rightarrow> bool" where
  "matchesGenerator globTest gid t =
     (if CHR ''*'' \<notin> set (generator t) then generator t = gid
      else globTest (generator t) gid)"

text \<open>\<^verbatim>\<open>Array.prototype.find\<close>, returning the position of the element found (the
  reference to it).\<close>

primrec findEntry :: "('a \<Rightarrow> bool) \<Rightarrow> 'a list \<Rightarrow> nat option" where
  "findEntry P [] = None"
| "findEntry P (x # xs) = (if P x then Some 0 else map_option Suc (findEntry P xs))"

text \<open>Modelled from the spec: the matcher of glob-to-regexp, a library outside the
  sources. The wildcard \<^verbatim>\<open>*\<close> stands for any sequence of characters, every other
  character for itself, and the whole string has to match.\<close>

fun globMatch :: "string \<Rightarrow> string \<Rightarrow> bool" where
  "globMatch [] s = (s = [])"
| "globMatch (p # ps) [] = (p = CHR ''*'' \<and> globMatch ps [])"
| "globMatch (p # ps) (c # cs) =
     (if p = CHR ''*'' then globMatch ps (c # cs) \<or> globMatch (p # ps) cs
      else p = c \<and> globMatch ps cs)"

text \<open>Lines 90 to 94: the entry found has its name rewritten in place when it
  differs from its author.\<close>

definition renameGenerator :: "tool \<Rightarrow> tool" where
  "renameGenerator t =
     (if name t \<noteq> author t then t\<lparr>name := name t @ '' by '' @ author t\<rparr> else t)"

definition rewriteRegistry :: "nat option \<Rightarrow> tool list \<Rightarrow> tool list" where
  "rewriteRegistry found registry =
     (case found of
        None \<Rightarrow> registry
      | Some i \<Rightarrow> registry[i := renameGenerator (registry ! i)])"

text \<open>The four counts of the issue summary, in the order of \<^verbatim>\<open>SEVERITY_MAP\<close>
  (Error, Warning, Info, Hint).\<close>

definition severityCounts :: "report_issues \<Rightarrow> int list" where
  "severityCounts i = [numErrors i, numWarnings i, numInfos i, numHints i]"

subsection \<open>The browser, the controller and the external collaborators\<close>

text \<open>An error object: what a rejected promise or a thrown exception carries.\<close>

datatype js_error = Error string

type_synonym bytes = "8 word list"

text \<open>A \<^verbatim>\<open>File\<close> of the asset map: its bytes, and the error with which reading it
  fails, if it does (a dropped file can have changed on disk since).\<close>

record asset_file =
  content :: bytes
  readError :: "js_error option"

text \<open>A \<^verbatim>\<open>Response\<close>, as the outcome of its \<^verbatim>\<open>arrayBuffer()\<close>.\<close>

datatype response = Response "js_error + bytes"

text \<open>What \<^verbatim>\<open>fetch\<close> is called with: an object URL made by
  \<^verbatim>\<open>URL.createObjectURL\<close> during the call, or any other URL string.\<close>

datatype url = ObjectURL nat | Location string

text \<open>What a template is rendered from: the report, with the registry entry its
  \<^verbatim>\<open>generator\<close> refers to as that entry is when the template runs.\<close>

record view =
  shownReport :: normalized_report
  shownGenerator :: "tool option"

text \<open>The content of the toggle element: nothing yet, the toggle template applied
  to a report, or applied to \<^verbatim>\<open>{reportError: e, level: 0}\<close>.\<close>

datatype toggle_content = NoContent | ReportToggle view | ExceptionToggle js_error int

text \<open>
  The state the controller works on: the shared registry array, the controller's
  field \<^verbatim>\<open>report\<close>, its toggle element (content, and whether its class list holds
  \<^verbatim>\<open>hidden\<close>), the object URLs that are live, the next one to be handed out, the
  requests made with \<^verbatim>\<open>fetch\<close> and the tabs opened by \<^verbatim>\<open>showLightbox\<close>.
\<close>

record world =
  generators :: "tool list"
  report :: "normalized_report option"
  toggleContent :: toggle_content
  toggleHidden :: bool
  objectURLs :: "nat \<rightharpoonup> asset_file"
  nextObjectURL :: nat
  requests :: "url list"
  tabs :: "view list"

text \<open>
  The collaborators outside the sources, as parameters: the matcher of
  glob-to-regexp, the built-in \<^verbatim>\<open>decodeURI\<close> (which throws a \<^verbatim>\<open>URIError\<close> on a
  malformed escape), \<^verbatim>\<open>fetch\<close> on a URL that is not an object URL of this state,
  and the validator, which is handed the bytes and the resolver and calls the
  resolver as it sees fit.
\<close>

record env =
  globTest :: "string \<Rightarrow> string \<Rightarrow> bool"
  decodeURI :: "string \<Rightarrow> js_error + string"
  network :: "string \<Rightarrow> js_error + response"
  validateBytes ::
    "bytes \<Rightarrow> (string \<Rightarrow> world \<Rightarrow> (js_error + bytes) \<times> world) \<Rightarrow> world
      \<Rightarrow> (js_error + raw_report) \<times> world"

definition createObjectURL :: "asset_file \<Rightarrow> world \<Rightarrow> nat \<times> world" where
  "createObjectURL object w =
     (nextObjectURL w,
      w\<lparr>objectURLs := (objectURLs w)(nextObjectURL w \<mapsto> object),
        nextObjectURL := Suc (nextObjectURL w)\<rparr>)"

definition revokeObjectURL :: "nat \<Rightarrow> world \<Rightarrow> world" where
  "revokeObjectURL u w = w\<lparr>objectURLs := (objectURLs w)(u := None)\<rparr>"

text \<open>\<^verbatim>\<open>fetch(u)\<close>: the request is recorded; an object URL is served from the file it
  stands for while it is live, any other URL by the network.\<close>

definition fetch :: "env \<Rightarrow> url \<Rightarrow> world \<Rightarrow> (js_error + response) \<times> world" where
  "fetch e u w =
     ((case u of
         ObjectURL n \<Rightarrow>
           (case objectURLs w n of
              None \<Rightarrow> Inl (Error ''Failed to fetch'')
            | Some f \<Rightarrow>
                (case readError f of
                   Some err \<Rightarrow> Inl err
                 | None \<Rightarrow> Inr (Response (Inr (content f)))))
       | Location s \<Rightarrow> network e s),
      w\<lparr>requests := requests w @ [u]\<rparr>)"

definition arrayBuffer :: "response \<Rightarrow> js_error + bytes" where
  "arrayBuffer r = (case r of Response b \<Rightarrow> b)"

text \<open>Modelled from the spec: the base directory of the root file reference, which
  the source takes from \<^verbatim>\<open>THREE.LoaderUtils.extractUrlBase\<close> of the library three.js:
  the reference up to and including its last \<^verbatim>\<open>/\<close>, and \<^verbatim>\<open>./\<close> when it has
  none.\<close>

definition extractUrlBase :: "string \<Rightarrow> string" where
  "extractUrlBase u =
     (if CHR ''/'' \<notin> set u then ''./''
      else rev (dropWhile (\<lambda>c. c \<noteq> CHR ''/'') (rev u)))"

text \<open>\<^verbatim>\<open>s.replace(/^(\.?\/)/, '')\<close>: one leading \<^verbatim>\<open>./\<close> or \<^verbatim>\<open>/\<close> is removed.\<close>

definition stripLeadingSlash :: "string \<Rightarrow> string" where
  "stripLeadingSlash s =
     (if prefix ''./'' s then drop 2 s else if prefix ''/'' s then drop 1 s else s)"

text \<open>Line 59 to 61, on the decoded URI:
  \<^verbatim>\<open>rootPath + decoded.replace(baseURL, '').replace(/^(\.?\/)/, '')\<close>.\<close>

definition normalizedURL :: "string \<Rightarrow> string \<Rightarrow> string \<Rightarrow> string" where
  "normalizedURL rootPath baseURL decoded =
     rootPath @ stripLeadingSlash (replaceFirst baseURL '''' decoded)"

subsection \<open>The asset resolver: \<^verbatim>\<open>resolveExternalResource\<close>\<close>

text \<open>
  \<^verbatim>\<open>decodeURI\<close> throws before anything else happens. The object URL is created on a
  hit of the asset map, one \<^verbatim>\<open>fetch\<close> follows, and the URL is revoked in the last
  \<^verbatim>\<open>then\<close>, which runs only when both the fetch and \<^verbatim>\<open>arrayBuffer()\<close> were
  fulfilled.
\<close>

definition resolveExternalResource ::
    "env \<Rightarrow> string \<Rightarrow> string \<Rightarrow> string \<Rightarrow> (string \<rightharpoonup> asset_file) \<Rightarrow> world
      \<Rightarrow> (js_error + bytes) \<times> world" where
  "resolveExternalResource e uri rootFile rootPath assetMap w =
     (let baseURL = extractUrlBase rootFile in
      case decodeURI e uri of
        Inl err \<Rightarrow> (Inl err, w)
      | Inr decoded \<Rightarrow>
          (case (case assetMap (normalizedURL rootPath baseURL decoded) of
                   Some object \<Rightarrow> (case createObjectURL object w of (u, w') \<Rightarrow> (Some u, w'))
                 | None \<Rightarrow> (None, w)) of
             (objectURL, w1) \<Rightarrow>
               (case fetch e (case objectURL of
                                Some u \<Rightarrow> ObjectURL u
                              | None \<Rightarrow> Location (baseURL @ uri)) w1 of
                  (Inl err, w2) \<Rightarrow> (Inl err, w2)
                | (Inr resp, w2) \<Rightarrow>
                    (case arrayBuffer resp of
                       Inl err \<Rightarrow> (Inl err, w2)
                     | Inr buffer \<Rightarrow>
                         (Inr buffer,
                          case objectURL of
                            Some u \<Rightarrow> revokeObjectURL u w2
                          | None \<Rightarrow> w2)))))"

subsection \<open>The normalizer and the presenter\<close>

definition showToggle :: "world \<Rightarrow> world" where
  "showToggle w = w\<lparr>toggleHidden := False\<rparr>"

definition hideToggle :: "world \<Rightarrow> world" where
  "hideToggle w = w\<lparr>toggleHidden := True\<rparr>"

text \<open>The registry entry a report's \<^verbatim>\<open>generator\<close> refers to, read now.\<close>

definition viewOf :: "world \<Rightarrow> normalized_report \<Rightarrow> view" where
  "viewOf w r =
     \<lparr>shownReport = r,
      shownGenerator =
        (case report_generator r of None \<Rightarrow> None | Some i \<Rightarrow> Some (generators w ! i))\<rparr>"

text \<open>The generator name a rendered template shows.\<close>

definition displayedName :: "toggle_content \<Rightarrow> string option" where
  "displayedName t =
     (case t of ReportToggle v \<Rightarrow> map_option name (shownGenerator v) | _ \<Rightarrow> None)"

text \<open>
  \<^verbatim>\<open>setReport\<close>. The listeners that \<^verbatim>\<open>bindListeners\<close> attaches to the fresh content
  are the operations \<open>showLightbox\<close> and \<open>hideToggle\<close> below; attaching them
  changes nothing of the state.
\<close>

definition setReport :: "env \<Rightarrow> raw_report \<Rightarrow> world \<Rightarrow> world" where
  "setReport e r w =
     (let found = findEntry (matchesGenerator (globTest e) (generatorID r)) (generators w);
          w1 = w\<lparr>generators := rewriteRegistry found (generators w)\<rparr>;
          normalized =
            \<lparr>validated = r,
             report_generator = found,
             maxSeverity = computeMaxSeverity (issues r),
             errors = groupMessages (bySeverity 0 (messages (issues r))),
             warnings = bySeverity 1 (messages (issues r)),
             infos = bySeverity 2 (messages (issues r)),
             hints = bySeverity 3 (messages (issues r))\<rparr>;
          w2 = w1\<lparr>report := Some normalized\<rparr>;
          w3 = w2\<lparr>toggleContent := ReportToggle (viewOf w2 normalized)\<rparr>
      in showToggle w3)"

definition setReportException :: "js_error \<Rightarrow> world \<Rightarrow> world" where
  "setReportException err w =
     showToggle (w\<lparr>report := None, toggleContent := ExceptionToggle err 0\<rparr>)"

definition showLightbox :: "world \<Rightarrow> world" where
  "showLightbox w =
     (case report w of
        None \<Rightarrow> w
      | Some r \<Rightarrow> w\<lparr>tabs := tabs w @ [viewOf w r]\<rparr>)"

subsection \<open>The runner: \<^verbatim>\<open>validate\<close>\<close>

text \<open>The promise chain up to the validator: the root file is fetched, its bytes are
  read, and the validator runs with the resolver bound to the three arguments.\<close>

definition runValidator ::
    "env \<Rightarrow> string \<Rightarrow> string \<Rightarrow> (string \<rightharpoonup> asset_file) \<Rightarrow> world
      \<Rightarrow> (js_error + raw_report) \<times> world" where
  "runValidator e rootFile rootPath assetMap w =
     (case fetch e (Location rootFile) w of
        (Inl err, w1) \<Rightarrow> (Inl err, w1)
      | (Inr resp, w1) \<Rightarrow>
          (case arrayBuffer resp of
             Inl err \<Rightarrow> (Inl err, w1)
           | Inr buffer \<Rightarrow>
               validateBytes e buffer
                 (\<lambda>uri. resolveExternalResource e uri rootFile rootPath assetMap) w1))"

text \<open>The end of the chain: \<^verbatim>\<open>.then((report) => this.setReport(report))\<close> and
  \<^verbatim>\<open>.catch((e) => this.setReportException(e))\<close>. On a report of the validator's
  shape \<^verbatim>\<open>setReport\<close> throws nothing, so the \<^verbatim>\<open>catch\<close> is reached by a rejection
  of the chain before it only.\<close>

definition validate ::
    "env \<Rightarrow> string \<Rightarrow> string \<Rightarrow> (string \<rightharpoonup> asset_file) \<Rightarrow> world \<Rightarrow> world" where
  "validate e rootFile rootPath assetMap w =
     (case runValidator e rootFile rootPath assetMap w of
        (Inl err, w') \<Rightarrow> setReportException err w'
      | (Inr r, w') \<Rightarrow> setReport e r w')"

subsection \<open>The normalization in the words of the specification\<close>

text \<open>The canonical key as the specification words it: the base directory is
  stripped from the decoded URI if it is a prefix of it, one leading \<^verbatim>\<open>./\<close> or
  \<^verbatim>\<open>/\<close> is stripped, and the root path is prepended.\<close>

definition specNormalizedURI :: "string \<Rightarrow> string \<Rightarrow> string \<Rightarrow> string" where
  "specNormalizedURI rootPath baseURL decoded =
     rootPath @ stripLeadingSlash
       (if prefix baseURL decoded then drop (length baseURL) decoded else decoded)"

subsection \<open>Concrete inputs\<close>

text \<open>A state as the constructor leaves the controller (no report, the toggle
  hidden), with a registry of one entry whose name differs from its author.\<close>

definition exampleWorld :: world where
  "exampleWorld =
     \<lparr>generators = [\<lparr>generator = ''FooExporter'', name = ''Foo'', author = ''Bar''\<rparr>],
      report = None, toggleContent = NoContent, toggleHidden = True,
      objectURLs = Map.empty, nextObjectURL = 0, requests = [], tabs = []\<rparr>"

definition exampleReport :: raw_report where
  "exampleReport =
     \<lparr>info = Some \<lparr>info_generator = Some ''FooExporter''\<rparr>,
      issues = \<lparr>numErrors = 0, numWarnings = 0, numInfos = 0, numHints = 0, messages = []\<rparr>\<rparr>"

text \<open>A validator that asks the resolver for \<^verbatim>\<open>buffer.bin\<close>, rejects with the
  resolver's error if there is one, and reports no issue otherwise.\<close>

definition exampleValidator ::
    "bytes \<Rightarrow> (string \<Rightarrow> world \<Rightarrow> (js_error + bytes) \<times> world) \<Rightarrow> world
      \<Rightarrow> (js_error + raw_report) \<times> world" where
  "exampleValidator root resolve w =
     (case resolve ''buffer.bin'' w of
        (Inl err, w') \<Rightarrow> (Inl err, w')
      | (Inr b, w') \<Rightarrow> (Inr exampleReport, w'))"

text \<open>An environment over a given network. Its \<^verbatim>\<open>decodeURI\<close> is the identity, as
  the built-in is on a string without \<^verbatim>\<open>%\<close>; the URIs of the examples have none.\<close>

definition exampleEnv :: "(string \<Rightarrow> js_error + response) \<Rightarrow> env" where
  "exampleEnv net =
     \<lparr>globTest = globMatch, decodeURI = (\<lambda>s. Inr s), network = net,
      validateBytes = exampleValidator\<rparr>"

text \<open>A validator that asks the resolver for \<^verbatim>\<open>buffer.bin\<close> as well, but records a
  rejection of the resolver as an issue of its report instead of rejecting.\<close>

definition ioErrorReport :: "js_error \<Rightarrow> raw_report" where
  "ioErrorReport err =
     \<lparr>info = Some \<lparr>info_generator = Some ''FooExporter''\<rparr>,
      issues = \<lparr>numErrors = 1, numWarnings = 0, numInfos = 0, numHints = 0,
        messages = [\<lparr>code = ''IO_ERROR'', pointer = Some ''/buffers/0/uri'', severity = Some 0,
                     message = (case err of Error text \<Rightarrow> text)\<rparr>]\<rparr>\<rparr>"

definition absorbingValidator ::
    "bytes \<Rightarrow> (string \<Rightarrow> world \<Rightarrow> (js_error + bytes) \<times> world) \<Rightarrow> world
      \<Rightarrow> (js_error + raw_report) \<times> world" where
  "absorbingValidator root resolve w =
     (case resolve ''buffer.bin'' w of
        (Inl err, w') \<Rightarrow> (Inr (ioErrorReport err), w')
      | (Inr b, w') \<Rightarrow> (Inr exampleReport, w'))"

definition absorbingEnv :: "(string \<Rightarrow> js_error + response) \<Rightarrow> env" where
  "absorbingEnv net =
     \<lparr>globTest = globMatch, decodeURI = (\<lambda>s. Inr s), network = net,
      validateBytes = absorbingValidator\<rparr>"

text \<open>Three networks: nothing can be fetched; every URL answers with one byte; only
  the root file \<^verbatim>\<open>model.gltf\<close> can be fetched.\<close>

definition offline :: "string \<Rightarrow> js_error + response" where
  "offline u = Inl (Error ''Failed to fetch'')"

definition serving :: "string \<Rightarrow> js_error + response" where
  "serving u = Inr (Response (Inr [0]))"

definition rootOnly :: "string \<Rightarrow> js_error + response" where
  "rootOnly u =
     (if u = ''model.gltf'' then Inr (Response (Inr [0])) else Inl (Error ''Failed to fetch''))"

section \<open>Properties of the aggregation\<close>

lemma set_firstOccurrences [simp]: "set (firstOccurrences xs) = set xs"
  by (induction xs) auto

lemma distinct_firstOccurrences [simp]: "distinct (firstOccurrences xs)"
  by (induction xs) (auto simp: distinct_removeAll)

lemma firstOccurrences_snoc:
  "firstOccurrences (xs @ [x]) =
     (if x \<in> set xs then firstOccurrences xs else firstOccurrences xs @ [x])"
  by (induction xs) auto

lemma setProperty_absent:
  "k \<notin> fst ` set obj \<Longrightarrow> setProperty obj k v = obj @ [(k, v)]"
  by (induction obj) auto

lemma setProperty_map_present:
  "k \<in> set ks \<Longrightarrow> distinct ks \<Longrightarrow>
   setProperty (map (\<lambda>p. (p, f p)) ks) k v = map (\<lambda>p. (p, if p = k then v else f p)) ks"
  by (induction ks) auto

lemma getProperty_map:
  "getProperty (map (\<lambda>p. (p, f p)) ks) k = (if k \<in> set ks then Some (f k) else None)"
  by (induction ks) (auto simp: getProperty_def)

lemma countedPointers_mem:
  "p \<in> set (countedPointers errs c) \<longleftrightarrow> 0 < occurrences errs c p"
  by (auto simp: countedPointers_def occurrences_def filter_empty_conv length_greater_0_conv[symmetric] simp del: length_greater_0_conv)

lemma occurrences_snoc:
  "occurrences (errs @ [m]) c p =
     occurrences errs c p + (if code m = c \<and> propertyKey (pointer m) = p then 1 else 0)"
  by (simp add: occurrences_def)

lemma countedPointers_snoc:
  "countedPointers (errs @ [m]) c =
     (if code m = c
      then (if 0 < occurrences errs c (propertyKey (pointer m)) then countedPointers errs c
            else countedPointers errs c @ [propertyKey (pointer m)])
      else countedPointers errs c)"
  using countedPointers_mem[of "propertyKey (pointer m)" errs c]
  by (auto simp: countedPointers_def firstOccurrences_snoc)

lemma countsOf_snoc_other:
  "code m \<noteq> c \<Longrightarrow> countsOf (errs @ [m]) c = countsOf errs c"
  by (simp add: countsOf_def countedPointers_snoc occurrences_snoc)

lemma setProperty_append_last:
  "k \<notin> fst ` set obj \<Longrightarrow> setProperty (obj @ [(k, v)]) k w = obj @ [(k, w)]"
  by (induction obj) auto

lemma getProperty_append_last:
  "k \<notin> fst ` set obj \<Longrightarrow> getProperty (obj @ [(k, v)]) k = Some v"
  by (induction obj) (auto simp: getProperty_def)

lemma countsOf_keys: "fst ` set (countsOf errs c) = set (countedPointers errs c)"
  by (force simp: countsOf_def)

lemma getProperty_countsOf:
  "getProperty (countsOf errs c) p =
     (if 0 < occurrences errs c p then Some (occurrences errs c p) else None)"
  by (simp add: countsOf_def getProperty_map countedPointers_mem)

lemma countsOf_step:
  assumes "code m = c"
  shows "countsOf (errs @ [m]) c =
    (let k = propertyKey (pointer m);
         pc = countsOf errs c;
         pc0 = (if falsyCount (getProperty pc k) then setProperty pc k 0 else pc)
     in setProperty pc0 k (readCount (getProperty pc0 k) + 1))"
proof (cases "0 < occurrences errs c (propertyKey (pointer m))")
  case True
  let ?k = "propertyKey (pointer m)"
  have mem: "?k \<in> set (countedPointers errs c)"
    using True by (simp add: countedPointers_mem)
  have upd: "setProperty (countsOf errs c) ?k (occurrences errs c ?k + 1) =
      map (\<lambda>p. (p, if p = ?k then occurrences errs c ?k + 1 else occurrences errs c p))
        (countedPointers errs c)"
    unfolding countsOf_def
    by (rule setProperty_map_present[OF mem]) (simp add: countedPointers_def)
  have lhs: "countsOf (errs @ [m]) c =
      map (\<lambda>p. (p, if p = ?k then occurrences errs c ?k + 1 else occurrences errs c p))
        (countedPointers errs c)"
    using True assms by (simp add: countsOf_def countedPointers_snoc occurrences_snoc)
  show ?thesis
    using True upd by (simp add: Let_def getProperty_countsOf falsyCount_def readCount_def lhs)
next
  case False
  let ?k = "propertyKey (pointer m)"
  have notin: "?k \<notin> fst ` set (countsOf errs c)"
    using False by (simp add: countsOf_keys countedPointers_mem)
  have others: "map (\<lambda>p. (p, occurrences (errs @ [m]) c p)) (countedPointers errs c) =
      countsOf errs c"
    unfolding countsOf_def using False
    by (intro map_cong refl) (auto simp: occurrences_snoc countedPointers_mem)
  have lhs: "countsOf (errs @ [m]) c = countsOf errs c @ [(?k, 1)]"
    using False assms others
    by (simp add: countsOf_def countedPointers_snoc occurrences_snoc)
  show ?thesis
    using False notin
    by (simp add: Let_def getProperty_countsOf falsyCount_def readCount_def lhs
        setProperty_absent setProperty_append_last getProperty_append_last)
qed

lemma countedCodes_Nil: "countedCodes [] = CODES"
  by (simp add: countedCodes_def CODES_def countsOf_def countedPointers_def)

lemma countMessage_countedCodes:
  "countMessage (countedCodes errs) m = countedCodes (errs @ [m])"
proof -
  consider (a) "code m = ''ACCESSOR_NON_UNIT''"
    | (b) "code m = ''ACCESSOR_ANIMATION_INPUT_NON_INCREASING''"
    | (c) "code m \<noteq> ''ACCESSOR_NON_UNIT''" "code m \<noteq> ''ACCESSOR_ANIMATION_INPUT_NON_INCREASING''"
    by blast
  then show ?thesis
  proof cases
    case a
    have o: "countsOf (errs @ [m]) ''ACCESSOR_ANIMATION_INPUT_NON_INCREASING'' =
        countsOf errs ''ACCESSOR_ANIMATION_INPUT_NON_INCREASING''"
      by (rule countsOf_snoc_other) (simp add: a)
    show ?thesis
      using countsOf_step[OF a, of errs] o
      by (simp add: countMessage_def countedCodes_def CODES_def getProperty_def a Let_def)
  next
    case b
    have o: "countsOf (errs @ [m]) ''ACCESSOR_NON_UNIT'' = countsOf errs ''ACCESSOR_NON_UNIT''"
      by (rule countsOf_snoc_other) (simp add: b)
    show ?thesis
      using countsOf_step[OF b, of errs] o
      by (simp add: countMessage_def countedCodes_def CODES_def getProperty_def b Let_def)
  next
    case c
    then show ?thesis
      by (simp add: countMessage_def countedCodes_def CODES_def getProperty_def
          countsOf_snoc_other)
  qed
qed

lemma countMessages_closed: "countMessages errs = countedCodes errs"
  unfolding countMessages_def
  by (induction errs rule: rev_induct) (simp_all add: countedCodes_Nil countMessage_countedCodes)

lemma objectKeys_countsOf: "objectKeys (countsOf errs c) = countedPointers errs c"
  by (simp add: objectKeys_def countsOf_def comp_def)

lemma readCount_countsOf:
  "p \<in> set (countedPointers errs c) \<Longrightarrow>
   readCount (getProperty (countsOf errs c) p) = occurrences errs c p"
  by (simp add: getProperty_countsOf countedPointers_mem readCount_def)

lemma getProperty_countedCodes:
  "getProperty (countedCodes errs) c =
     map_option (\<lambda>entry. entry\<lparr>pointerCounts := countsOf errs c\<rparr>) (getProperty CODES c)"
  by (simp add: countedCodes_def CODES_def getProperty_def)

lemma objectKeys_countedCodes: "objectKeys (countedCodes errs) = objectKeys CODES"
  by (simp add: countedCodes_def CODES_def objectKeys_def)

lemma pushedMessages_closed:
  "pushedMessages (countedCodes errs) =
     concat (map (\<lambda>(c, entry).
        map (\<lambda>p. syntheticMessage c p (messageTemplate entry) (occurrences errs c p))
          (countedPointers errs c))
       CODES)"
proof -
  have inner: "map (\<lambda>p. syntheticMessage c p t (readCount (getProperty (countsOf errs c) p)))
        (countedPointers errs c) =
      map (\<lambda>p. syntheticMessage c p t (occurrences errs c p)) (countedPointers errs c)"
    for c t
    by (rule map_cong) (simp_all add: readCount_countsOf)
  have keys: "objectKeys CODES = [''ACCESSOR_NON_UNIT'', ''ACCESSOR_ANIMATION_INPUT_NON_INCREASING'']"
    by (simp add: objectKeys_def CODES_def)
  have lookups:
    "getProperty CODES ''ACCESSOR_NON_UNIT'' = Some (snd (CODES ! 0))"
    "getProperty CODES ''ACCESSOR_ANIMATION_INPUT_NON_INCREASING'' = Some (snd (CODES ! 1))"
    by (simp_all add: getProperty_def CODES_def)
  have "pushedMessages (countedCodes errs) =
      map (\<lambda>p. syntheticMessage ''ACCESSOR_NON_UNIT'' p (messageTemplate (snd (CODES ! 0)))
            (occurrences errs ''ACCESSOR_NON_UNIT'' p))
        (countedPointers errs ''ACCESSOR_NON_UNIT'')
      @ map (\<lambda>p. syntheticMessage ''ACCESSOR_ANIMATION_INPUT_NON_INCREASING'' p
            (messageTemplate (snd (CODES ! 1)))
            (occurrences errs ''ACCESSOR_ANIMATION_INPUT_NON_INCREASING'' p))
        (countedPointers errs ''ACCESSOR_ANIMATION_INPUT_NON_INCREASING'')"
    by (simp add: pushedMessages_def objectKeys_countedCodes keys getProperty_countedCodes
        lookups objectKeys_countsOf inner)
  also have "\<dots> = concat (map (\<lambda>(c, entry).
        map (\<lambda>p. syntheticMessage c p (messageTemplate entry) (occurrences errs c p))
          (countedPointers errs c))
       CODES)"
    by (simp add: CODES_def)
  finally show ?thesis .
qed

lemma keepMessage_closed:
  "keepMessage (countedCodes errs) =
     (\<lambda>m. \<not> (code m \<in> set (objectKeys CODES) \<and>
         2 \<le> occurrences errs (code m) (propertyKey (pointer m))))"
proof (rule ext)
  fix m
  show "keepMessage (countedCodes errs) m =
     (\<not> (code m \<in> set (objectKeys CODES) \<and>
         2 \<le> occurrences errs (code m) (propertyKey (pointer m))))"
  proof (cases "getProperty CODES (code m)")
    case None
    then have "code m \<notin> set (objectKeys CODES)"
      by (simp add: getProperty_def objectKeys_def map_of_eq_None_iff)
    with None show ?thesis
      by (simp add: keepMessage_def getProperty_countedCodes)
  next
    case (Some entry)
    then have "code m \<in> set (objectKeys CODES)"
      by (auto simp: getProperty_def objectKeys_def dest: map_of_SomeD intro: rev_image_eqI)
    with Some show ?thesis
      by (auto simp: keepMessage_def getProperty_countedCodes getProperty_countsOf)
  qed
qed

text \<open>What the closed form says about one code and pointer: a message that occurs
  less than twice with its pointer stays; a message of a code of the table that
  occurs at least twice does not; and a synthetic message is pushed for every pointer
  counted for a code of the table, whether it was counted once or more often.\<close>

lemma groupMessages_keeps_single:
  assumes "m \<in> set errs"
    and "occurrences errs (code m) (propertyKey (pointer m)) < 2"
  shows "m \<in> set (groupMessages errs)"
  using assms by (simp add: groupMessages_def countMessages_closed keepMessage_closed Let_def)

lemma groupMessages_removes_repeated:
  assumes "code m \<in> set (objectKeys CODES)"
    and "2 \<le> occurrences errs (code m) (propertyKey (pointer m))"
  shows "m \<notin> set (filter (keepMessage (countMessages errs)) errs)"
  using assms by (simp add: countMessages_closed keepMessage_closed)

lemma groupMessages_pushes_every_count:
  assumes "(c, entry) \<in> set CODES"
    and "0 < occurrences errs c p"
  shows "syntheticMessage c p (messageTemplate entry) (occurrences errs c p)
    \<in> set (groupMessages errs)"
proof -
  have "p \<in> set (countedPointers errs c)"
    using assms(2) by (simp add: countedPointers_mem)
  then have "syntheticMessage c p (messageTemplate entry) (occurrences errs c p)
      \<in> set (pushedMessages (countedCodes errs))"
    unfolding pushedMessages_closed using assms(1) by force
  then show ?thesis
    by (simp add: groupMessages_def countMessages_closed Let_def)
qed

text \<open>
  C10. The result of the aggregation is the retained messages, in their original
  order, followed by the synthetic messages: the messages removed are those of a
  code of the table that occur at least twice with their pointer, and nothing is put
  in their place; the synthetic messages come last, one per code of the table (in the
  table's order) and per pointer counted for it (in the order of first occurrence),
  with the number of occurrences in the text.
\<close>

theorem groupMessages_appends_synthetic:
  "groupMessages errs =
     filter (\<lambda>m. \<not> (code m \<in> set (objectKeys CODES) \<and>
                     2 \<le> occurrences errs (code m) (propertyKey (pointer m)))) errs
     @ concat (map (\<lambda>(c, entry).
         map (\<lambda>p. syntheticMessage c p (messageTemplate entry) (occurrences errs c p))
           (countedPointers errs c))
        CODES)"
  by (simp add: groupMessages_def countMessages_closed pushedMessages_closed
      keepMessage_closed)

text \<open>
  C1, at one occurrence. A single \<^verbatim>\<open>ACCESSOR_NON_UNIT\<close> message at
  \<^verbatim>\<open>/meshes/0\<close> is kept, and a synthetic message counting 1 is pushed after it: the
  sequence is not left as it was.
\<close>

theorem groupMessages_single_occurrence:
  "groupMessages
     [\<lparr>code = ''ACCESSOR_NON_UNIT'', pointer = Some ''/meshes/0'', severity = Some 0,
       message = ''Accessor element at index 3 is not of unit length: 0.''\<rparr>] =
     [\<lparr>code = ''ACCESSOR_NON_UNIT'', pointer = Some ''/meshes/0'', severity = Some 0,
       message = ''Accessor element at index 3 is not of unit length: 0.''\<rparr>,
      \<lparr>code = ''ACCESSOR_NON_UNIT'', pointer = Some ''/meshes/0'', severity = None,
       message = ''1 accessor elements not of unit length: 0. [AGGREGATED]''\<rparr>]"
  by code_simp


section \<open>Properties of the normalization\<close>

text \<open>What \<^verbatim>\<open>setReport\<close> leaves in the controller's field \<^verbatim>\<open>report\<close> and in the
  registry.\<close>

lemma setReport_report:
  "report (setReport e r w) =
     Some \<lparr>validated = r,
           report_generator =
             findEntry (matchesGenerator (globTest e) (generatorID r)) (generators w),
           maxSeverity = computeMaxSeverity (issues r),
           errors = groupMessages (bySeverity 0 (messages (issues r))),
           warnings = bySeverity 1 (messages (issues r)),
           infos = bySeverity 2 (messages (issues r)),
           hints = bySeverity 3 (messages (issues r))\<rparr>"
  by (simp add: setReport_def Let_def showToggle_def)

lemma setReport_generators:
  "generators (setReport e r w) =
     rewriteRegistry (findEntry (matchesGenerator (globTest e) (generatorID r)) (generators w))
       (generators w)"
  by (simp add: setReport_def Let_def showToggle_def)



lemma computeMaxSeverity_closed:
  "computeMaxSeverity i =
     (if 0 < numErrors i then 0
      else if 0 < numWarnings i then 1
      else if 0 < numInfos i then 2
      else if 0 < numHints i then 3
      else - 1)"
  by (simp add: computeMaxSeverity_def SEVERITY_MAP_def severityStep_def issuesProperty_def
      greaterThanZero_def)

lemma less_four_cases: "(k::nat) < 4 \<Longrightarrow> k = 0 \<or> k = 1 \<or> k = 2 \<or> k = 3"
  by arith

lemma all_less_one: "(\<forall>j<(1::nat). P j) = P 0"
  by simp

lemma all_less_two: "(\<forall>j<(2::nat). P j) = (P 0 \<and> P 1)"
  by (auto simp: less_Suc_eq numeral_2_eq_2)

lemma all_less_three: "(\<forall>j<(3::nat). P j) = (P 0 \<and> P 1 \<and> P 2)"
  by (auto simp: less_Suc_eq numeral_3_eq_3 numeral_2_eq_2)

text \<open>
  C7. The \<^verbatim>\<open>maxSeverity\<close> that \<^verbatim>\<open>setReport\<close> stores with the report is the index of
  the first level, in the order Error, Warning, Info, Hint, whose count in the raw
  issue summary is greater than zero: it is \<open>k\<close> whenever the count at \<open>k\<close> is
  positive and no count before it is; it is -1 exactly when no count is positive, so
  in particular when all four are zero; and the counts (0, 3, 0, 1) give 1.
\<close>

theorem maxSeverity_first_positive:
  "(\<exists>n. report (setReport e r w) = Some n
        \<and> maxSeverity n = computeMaxSeverity (issues r)
        \<and> (\<forall>k<4. 0 < severityCounts (issues r) ! k
                  \<and> (\<forall>j<k. \<not> 0 < severityCounts (issues r) ! j)
              \<longrightarrow> maxSeverity n = int k)
        \<and> (maxSeverity n = - 1 \<longleftrightarrow> (\<forall>k<4. \<not> 0 < severityCounts (issues r) ! k))
        \<and> (severityCounts (issues r) = [0, 0, 0, 0] \<longrightarrow> maxSeverity n = - 1))
   \<and> (\<exists>n. report (setReport e
          \<lparr>info = gi,
           issues = \<lparr>numErrors = 0, numWarnings = 3, numInfos = 0, numHints = 1,
                     messages = msgs\<rparr>\<rparr> w) = Some n
        \<and> maxSeverity n = 1)
   \<and> (\<forall>k<4. 0 < severityCounts i ! k \<and> (\<forall>j<k. \<not> 0 < severityCounts i ! j)
       \<longrightarrow> computeMaxSeverity i = int k)
   \<and> (computeMaxSeverity i = - 1 \<longleftrightarrow> (\<forall>k<4. \<not> 0 < severityCounts i ! k))
   \<and> (severityCounts i = [0, 0, 0, 0] \<longrightarrow> computeMaxSeverity i = - 1)
   \<and> computeMaxSeverity
        \<lparr>numErrors = 0, numWarnings = 3, numInfos = 0, numHints = 1, messages = msgs\<rparr> = 1"
proof -
  have first: "computeMaxSeverity x = int k"
    if "k < 4" and "0 < severityCounts x ! k \<and> (\<forall>j<k. \<not> 0 < severityCounts x ! j)"
    for x and k :: nat
    using that less_four_cases[of k]
    by (auto simp: computeMaxSeverity_closed severityCounts_def all_less_one all_less_two
        all_less_three)
  have none: "computeMaxSeverity x = - 1 \<longleftrightarrow> (\<forall>k<4. \<not> 0 < severityCounts x ! k)" for x
  proof -
    have "(\<forall>k<4. \<not> 0 < severityCounts x ! k) \<longleftrightarrow>
        \<not> 0 < numErrors x \<and> \<not> 0 < numWarnings x \<and> \<not> 0 < numInfos x \<and> \<not> 0 < numHints x"
      by (auto simp: severityCounts_def less_Suc_eq numeral_eq_Suc)
    then show ?thesis
      by (simp add: computeMaxSeverity_closed)
  qed
  have zero: "computeMaxSeverity x = - 1" if "severityCounts x = [0, 0, 0, 0]" for x
    using that by (simp add: computeMaxSeverity_closed severityCounts_def)
  have example: "computeMaxSeverity
      \<lparr>numErrors = 0, numWarnings = 3, numInfos = 0, numHints = 1, messages = m\<rparr> = 1" for m
    by (simp add: computeMaxSeverity_closed)
  have stored: "\<exists>n. report (setReport e r w) = Some n
      \<and> maxSeverity n = computeMaxSeverity (issues r)
      \<and> (\<forall>k<4. 0 < severityCounts (issues r) ! k
                \<and> (\<forall>j<k. \<not> 0 < severityCounts (issues r) ! j)
            \<longrightarrow> maxSeverity n = int k)
      \<and> (maxSeverity n = - 1 \<longleftrightarrow> (\<forall>k<4. \<not> 0 < severityCounts (issues r) ! k))
      \<and> (severityCounts (issues r) = [0, 0, 0, 0] \<longrightarrow> maxSeverity n = - 1)"
    using first[of _ "issues r"] none[of "issues r"] zero[of "issues r"]
    by (simp add: setReport_report)
  have stored_example: "\<exists>n. report (setReport e
        \<lparr>info = gi,
         issues = \<lparr>numErrors = 0, numWarnings = 3, numInfos = 0, numHints = 1,
                   messages = msgs\<rparr>\<rparr> w) = Some n
      \<and> maxSeverity n = 1"
    by (simp add: setReport_report example)
  from stored stored_example first[of _ i] none[of i] zero[of i] example[of msgs]
  show ?thesis
    by blast
qed

theorem maxSeverity_first_positive_witness:
  "0 < severityCounts
         \<lparr>numErrors = 0, numWarnings = 3, numInfos = 0, numHints = 1, messages = []\<rparr> ! 1
   \<and> \<not> 0 < severityCounts
         \<lparr>numErrors = 0, numWarnings = 3, numInfos = 0, numHints = 1, messages = []\<rparr> ! 0
   \<and> computeMaxSeverity
         \<lparr>numErrors = 0, numWarnings = 3, numInfos = 0, numHints = 1, messages = []\<rparr> = int 1
   \<and> (\<exists>n. report (setReport (exampleEnv offline)
          \<lparr>info = None,
           issues = \<lparr>numErrors = 0, numWarnings = 3, numInfos = 0, numHints = 1,
                     messages = []\<rparr>\<rparr> exampleWorld) = Some n
        \<and> maxSeverity n = int 1)
   \<and> severityCounts
         \<lparr>numErrors = 0, numWarnings = 0, numInfos = 0, numHints = 0, messages = []\<rparr>
       = [0, 0, 0, 0]
   \<and> computeMaxSeverity
         \<lparr>numErrors = 0, numWarnings = 0, numInfos = 0, numHints = 0, messages = []\<rparr> = - 1
   \<and> (\<exists>n. report (setReport (exampleEnv offline) exampleReport exampleWorld) = Some n
        \<and> maxSeverity n = - 1)"
proof -
  let ?i = "\<lparr>numErrors = 0, numWarnings = 3, numInfos = 0, numHints = 1, messages = []\<rparr>"
  let ?z = "\<lparr>numErrors = 0, numWarnings = 0, numInfos = 0, numHints = 0, messages = []\<rparr>"
  let ?r = "\<lparr>info = None, issues = ?i\<rparr>"
  let ?e = "exampleEnv offline"
  have pos: "0 < severityCounts ?i ! 1" and neg: "\<not> 0 < severityCounts ?i ! 0"
    by (simp_all add: severityCounts_def)
  have zero: "severityCounts ?z = [0, 0, 0, 0]"
    by (simp add: severityCounts_def)
  have first: "\<forall>j<(1::nat). \<not> 0 < severityCounts ?i ! j"
    using neg by simp
  have "(1::nat) < 4 \<longrightarrow>
      (0 < severityCounts ?i ! 1 \<and> (\<forall>j<1. \<not> 0 < severityCounts ?i ! j)
        \<longrightarrow> computeMaxSeverity ?i = int 1)"
    using maxSeverity_first_positive[where i = ?i] by blast
  with pos first have one: "computeMaxSeverity ?i = int 1"
    by simp
  have "\<exists>n. report (setReport ?e ?r exampleWorld) = Some n
      \<and> ((1::nat) < 4 \<longrightarrow>
            (0 < severityCounts (issues ?r) ! 1
              \<and> (\<forall>j<1. \<not> 0 < severityCounts (issues ?r) ! j)
             \<longrightarrow> maxSeverity n = int 1))"
    using maxSeverity_first_positive[where e = ?e and r = ?r and w = exampleWorld] by blast
  with pos first have stored_one:
    "\<exists>n. report (setReport ?e ?r exampleWorld) = Some n \<and> maxSeverity n = int 1"
    by simp
  from maxSeverity_first_positive[where i = ?z] zero have none: "computeMaxSeverity ?z = - 1"
    by blast
  have zero_r: "severityCounts (issues exampleReport) = [0, 0, 0, 0]"
    by (simp add: severityCounts_def exampleReport_def)
  from maxSeverity_first_positive[where e = ?e and r = exampleReport and w = exampleWorld] zero_r
  have stored_none:
    "\<exists>n. report (setReport ?e exampleReport exampleWorld) = Some n \<and> maxSeverity n = - 1"
    by blast
  from pos neg one stored_one zero none stored_none show ?thesis
    by blast
qed

lemma bySeverity_partition:
  "\<forall>m\<in>set msgs. severity m \<in> {Some 0, Some 1, Some 2, Some 3} \<Longrightarrow>
   mset (bySeverity 0 msgs) + mset (bySeverity 1 msgs) + mset (bySeverity 2 msgs)
     + mset (bySeverity 3 msgs) = mset msgs"
  by (induction msgs) (auto simp: bySeverity_def)

lemma bySeverity_disjoint:
  "a \<noteq> b \<Longrightarrow> set (bySeverity a msgs) \<inter> set (bySeverity b msgs) = {}"
  by (auto simp: bySeverity_def)

text \<open>
  C9. When every message has a severity among 0, 1, 2, 3, the four sequences that
  \<^verbatim>\<open>setReport\<close> derives before the aggregation are the messages filtered by
  severity 0, 1, 2 and 3; each is a subsequence of the messages (the relative order is
  kept); their lengths add up to the number of messages; and every message is in
  exactly one of them: together they hold each message as often as the report does,
  and no two of them share a message. \<^verbatim>\<open>setReport\<close> stores the last three as they
  are and the first after the aggregation.
\<close>

theorem partition_by_severity:
  assumes "\<forall>m\<in>set msgs. severity m \<in> {Some 0, Some 1, Some 2, Some 3}"
  shows "(\<forall>n\<in>{0, 1, 2, 3}.
            bySeverity n msgs = filter (\<lambda>m. severity m = Some n) msgs
            \<and> subseq (bySeverity n msgs) msgs)
    \<and> length (bySeverity 0 msgs) + length (bySeverity 1 msgs) + length (bySeverity 2 msgs)
        + length (bySeverity 3 msgs) = length msgs
    \<and> mset (bySeverity 0 msgs) + mset (bySeverity 1 msgs) + mset (bySeverity 2 msgs)
        + mset (bySeverity 3 msgs) = mset msgs
    \<and> (\<forall>a\<in>{0, 1, 2, 3}. \<forall>b\<in>{0, 1, 2, 3}.
          a \<noteq> b \<longrightarrow> set (bySeverity a msgs) \<inter> set (bySeverity b msgs) = {})
    \<and> (\<forall>e r w. messages (issues r) = msgs \<longrightarrow>
          (\<exists>n. report (setReport e r w) = Some n
             \<and> errors n = groupMessages (bySeverity 0 msgs)
             \<and> warnings n = bySeverity 1 msgs
             \<and> infos n = bySeverity 2 msgs
             \<and> hints n = bySeverity 3 msgs))"
proof (intro conjI)
  show "\<forall>n\<in>{0, 1, 2, 3}.
      bySeverity n msgs = filter (\<lambda>m. severity m = Some n) msgs
      \<and> subseq (bySeverity n msgs) msgs"
    by (simp add: bySeverity_def)
next
  have "size (mset (bySeverity 0 msgs) + mset (bySeverity 1 msgs) + mset (bySeverity 2 msgs)
      + mset (bySeverity 3 msgs)) = size (mset msgs)"
    using bySeverity_partition[OF assms] by simp
  then show "length (bySeverity 0 msgs) + length (bySeverity 1 msgs)
      + length (bySeverity 2 msgs) + length (bySeverity 3 msgs) = length msgs"
    by simp
next
  show "mset (bySeverity 0 msgs) + mset (bySeverity 1 msgs) + mset (bySeverity 2 msgs)
      + mset (bySeverity 3 msgs) = mset msgs"
    by (rule bySeverity_partition[OF assms])
next
  show "\<forall>a\<in>{0, 1, 2, 3}. \<forall>b\<in>{0, 1, 2, 3}.
      a \<noteq> b \<longrightarrow> set (bySeverity a msgs) \<inter> set (bySeverity b msgs) = {}"
    using bySeverity_disjoint by blast
next
  show "\<forall>e r w. messages (issues r) = msgs \<longrightarrow>
      (\<exists>n. report (setReport e r w) = Some n
         \<and> errors n = groupMessages (bySeverity 0 msgs)
         \<and> warnings n = bySeverity 1 msgs
         \<and> infos n = bySeverity 2 msgs
         \<and> hints n = bySeverity 3 msgs)"
    by (simp add: setReport_def Let_def showToggle_def)
qed

theorem partition_by_severity_witness:
  "severity \<lparr>code = ''A'', pointer = None, severity = Some 1, message = ''w''\<rparr>
      \<in> {Some 0, Some 1, Some 2, Some 3}
   \<and> severity \<lparr>code = ''B'', pointer = Some ''/nodes/0'', severity = Some 0, message = ''e''\<rparr>
      \<in> {Some 0, Some 1, Some 2, Some 3}
   \<and> length (bySeverity 0
        [\<lparr>code = ''A'', pointer = None, severity = Some 1, message = ''w''\<rparr>,
         \<lparr>code = ''B'', pointer = Some ''/nodes/0'', severity = Some 0, message = ''e''\<rparr>])
     + length (bySeverity 1
        [\<lparr>code = ''A'', pointer = None, severity = Some 1, message = ''w''\<rparr>,
         \<lparr>code = ''B'', pointer = Some ''/nodes/0'', severity = Some 0, message = ''e''\<rparr>])
     + length (bySeverity 2
        [\<lparr>code = ''A'', pointer = None, severity = Some 1, message = ''w''\<rparr>,
         \<lparr>code = ''B'', pointer = Some ''/nodes/0'', severity = Some 0, message = ''e''\<rparr>])
     + length (bySeverity 3
        [\<lparr>code = ''A'', pointer = None, severity = Some 1, message = ''w''\<rparr>,
         \<lparr>code = ''B'', pointer = Some ''/nodes/0'', severity = Some 0, message = ''e''\<rparr>])
     = 2"
proof -
  let ?msgs = "[\<lparr>code = ''A'', pointer = None, severity = Some 1, message = ''w''\<rparr>,
         \<lparr>code = ''B'', pointer = Some ''/nodes/0'', severity = Some 0, message = ''e''\<rparr>]"
  have sev: "\<forall>m\<in>set ?msgs. severity m \<in> {Some 0, Some 1, Some 2, Some 3}"
    by simp
  have "length (bySeverity 0 ?msgs) + length (bySeverity 1 ?msgs)
      + length (bySeverity 2 ?msgs) + length (bySeverity 3 ?msgs) = length ?msgs"
    using partition_by_severity[OF sev] by blast
  then show ?thesis
    by simp
qed

lemma findEntry_Some_iff:
  "findEntry P xs = Some i \<longleftrightarrow> i < length xs \<and> P (xs ! i) \<and> (\<forall>j<i. \<not> P (xs ! j))"
proof (induction xs arbitrary: i)
  case Nil
  then show ?case by simp
next
  case (Cons x xs)
  show ?case
  proof (cases "P x")
    case True
    then show ?thesis
      by (cases i) auto
  next
    case False
    show ?thesis
    proof (cases i)
      case 0
      with False show ?thesis by auto
    next
      case (Suc k)
      have "(\<forall>j<Suc k. \<not> P ((x # xs) ! j)) \<longleftrightarrow> (\<forall>j<k. \<not> P (xs ! j))"
        using False by (auto simp: less_Suc_eq_0_disj)
      with False Suc Cons.IH[of k] show ?thesis
        by auto
    qed
  qed
qed

lemma findEntry_None_iff: "findEntry P xs = None \<longleftrightarrow> (\<forall>x\<in>set xs. \<not> P x)"
  by (induction xs) auto

lemma generatorID_cases:
  "generatorID \<lparr>info = Some \<lparr>info_generator = Some s\<rparr>, issues = iss\<rparr> = s"
  "generatorID \<lparr>info = Some \<lparr>info_generator = None\<rparr>, issues = iss\<rparr> = []"
  "generatorID \<lparr>info = None, issues = iss\<rparr> = []"
  by (simp_all add: generatorID_def)

text \<open>
  C8. The \<^verbatim>\<open>generator\<close> that \<^verbatim>\<open>setReport\<close> stores with the report is what
  \<^verbatim>\<open>find\<close> returns on the registry as it is before the call, for the generator
  string of the report (\<^verbatim>\<open>report.info.generator\<close>, or the empty string when it is
  absent): the first entry, in the order of the registry, that matches, and none when
  no entry matches. An entry whose pattern holds no \<^verbatim>\<open>*\<close> matches exactly when the
  pattern equals the generator string; an entry whose pattern holds a \<^verbatim>\<open>*\<close> matches
  exactly when the glob matcher accepts the generator string. With the wildcard read
  as any sequence of characters, a registry of the one entry \<^verbatim>\<open>COLLADA2GLTF*\<close> gives
  that entry for a report of \<^verbatim>\<open>COLLADA2GLTF v2.1.4\<close> and none for a report of
  \<^verbatim>\<open>Blender\<close>.
\<close>

theorem generator_identification:
  "(\<exists>n. report (setReport e r w) = Some n
        \<and> report_generator n =
            findEntry (matchesGenerator (globTest e) (generatorID r)) (generators w)
        \<and> (\<forall>k. report_generator n = Some k \<longleftrightarrow>
              k < length (generators w)
              \<and> matchesGenerator (globTest e) (generatorID r) (generators w ! k)
              \<and> (\<forall>j<k. \<not> matchesGenerator (globTest e) (generatorID r) (generators w ! j)))
        \<and> (report_generator n = None \<longleftrightarrow>
              (\<forall>t\<in>set (generators w). \<not> matchesGenerator (globTest e) (generatorID r) t)))
   \<and> generatorID \<lparr>info = Some \<lparr>info_generator = Some s\<rparr>, issues = iss\<rparr> = s
   \<and> generatorID \<lparr>info = Some \<lparr>info_generator = None\<rparr>, issues = iss\<rparr> = []
   \<and> generatorID \<lparr>info = None, issues = iss\<rparr> = []
   \<and> (globTest e = globMatch
        \<and> generators w = [\<lparr>generator = ''COLLADA2GLTF*'', name = n, author = a\<rparr>] \<longrightarrow>
        (\<exists>m. report (setReport e
            \<lparr>info = Some \<lparr>info_generator = Some ''COLLADA2GLTF v2.1.4''\<rparr>, issues = iss\<rparr> w)
              = Some m
           \<and> report_generator m = Some 0)
        \<and> (\<exists>m. report (setReport e
            \<lparr>info = Some \<lparr>info_generator = Some ''Blender''\<rparr>, issues = iss\<rparr> w) = Some m
           \<and> report_generator m = None))
   \<and> (findEntry (matchesGenerator g gid) registry = Some i \<longleftrightarrow>
      i < length registry \<and> matchesGenerator g gid (registry ! i)
      \<and> (\<forall>j<i. \<not> matchesGenerator g gid (registry ! j)))
   \<and> (findEntry (matchesGenerator g gid) registry = None \<longleftrightarrow>
        (\<forall>t\<in>set registry. \<not> matchesGenerator g gid t))
   \<and> (CHR ''*'' \<notin> set (generator t) \<longrightarrow> matchesGenerator g gid t = (generator t = gid))
   \<and> (CHR ''*'' \<in> set (generator t) \<longrightarrow> matchesGenerator g gid t = g (generator t) gid)
   \<and> matchesGenerator globMatch ''COLLADA2GLTF v2.1.4''
        \<lparr>generator = ''COLLADA2GLTF*'', name = n, author = a\<rparr>
   \<and> \<not> matchesGenerator globMatch ''Blender''
        \<lparr>generator = ''COLLADA2GLTF*'', name = n, author = a\<rparr>"
proof -
  have stored: "\<exists>n. report (setReport e r w) = Some n
      \<and> report_generator n =
          findEntry (matchesGenerator (globTest e) (generatorID r)) (generators w)
      \<and> (\<forall>k. report_generator n = Some k \<longleftrightarrow>
            k < length (generators w)
            \<and> matchesGenerator (globTest e) (generatorID r) (generators w ! k)
            \<and> (\<forall>j<k. \<not> matchesGenerator (globTest e) (generatorID r) (generators w ! j)))
      \<and> (report_generator n = None \<longleftrightarrow>
            (\<forall>t\<in>set (generators w). \<not> matchesGenerator (globTest e) (generatorID r) t))"
    by (simp add: setReport_report findEntry_Some_iff findEntry_None_iff)
  have example: "globTest e = globMatch
        \<and> generators w = [\<lparr>generator = ''COLLADA2GLTF*'', name = n, author = a\<rparr>] \<longrightarrow>
      (\<exists>m. report (setReport e
          \<lparr>info = Some \<lparr>info_generator = Some ''COLLADA2GLTF v2.1.4''\<rparr>, issues = iss\<rparr> w)
            = Some m
         \<and> report_generator m = Some 0)
      \<and> (\<exists>m. report (setReport e
          \<lparr>info = Some \<lparr>info_generator = Some ''Blender''\<rparr>, issues = iss\<rparr> w) = Some m
         \<and> report_generator m = None)"
    by (simp add: setReport_report generatorID_cases matchesGenerator_def)
  have yes: "matchesGenerator globMatch ''COLLADA2GLTF v2.1.4''
        \<lparr>generator = ''COLLADA2GLTF*'', name = n, author = a\<rparr>"
    by (simp add: matchesGenerator_def)
  have no: "\<not> matchesGenerator globMatch ''Blender''
        \<lparr>generator = ''COLLADA2GLTF*'', name = n, author = a\<rparr>"
    by (simp add: matchesGenerator_def)
  have plain: "CHR ''*'' \<notin> set (generator t) \<longrightarrow>
      matchesGenerator g gid t = (generator t = gid)"
    and star: "CHR ''*'' \<in> set (generator t) \<longrightarrow>
      matchesGenerator g gid t = g (generator t) gid"
    by (simp_all add: matchesGenerator_def)
  note found = findEntry_Some_iff[of "matchesGenerator g gid" registry i]
    and absent = findEntry_None_iff[of "matchesGenerator g gid" registry]
  show ?thesis
    by (intro conjI stored generatorID_cases example found absent plain star yes no)
qed

theorem generator_identification_witness:
  "CHR ''*'' \<notin> set (generator \<lparr>generator = ''Blender'', name = ''Blender'', author = ''Blender''\<rparr>)
   \<and> \<not> matchesGenerator globMatch ''COLLADA2GLTF v2.1.4''
        \<lparr>generator = ''Blender'', name = ''Blender'', author = ''Blender''\<rparr>
   \<and> CHR ''*'' \<in> set (generator
        \<lparr>generator = ''COLLADA2GLTF*'', name = ''COLLADA2GLTF'', author = ''Khronos''\<rparr>)
   \<and> matchesGenerator globMatch ''COLLADA2GLTF v2.1.4''
        \<lparr>generator = ''COLLADA2GLTF*'', name = ''COLLADA2GLTF'', author = ''Khronos''\<rparr>
   \<and> findEntry (matchesGenerator globMatch ''COLLADA2GLTF v2.1.4'')
        [\<lparr>generator = ''Blender'', name = ''Blender'', author = ''Blender''\<rparr>,
         \<lparr>generator = ''COLLADA2GLTF*'', name = ''COLLADA2GLTF'', author = ''Khronos''\<rparr>,
         \<lparr>generator = ''COLLADA2GLTF*'', name = ''Other'', author = ''Other''\<rparr>] = Some 1
   \<and> (\<exists>m. report (setReport (exampleEnv offline)
          \<lparr>info = Some \<lparr>info_generator = Some ''COLLADA2GLTF v2.1.4''\<rparr>,
           issues = issues exampleReport\<rparr>
          (exampleWorld\<lparr>generators :=
            [\<lparr>generator = ''Blender'', name = ''Blender'', author = ''Blender''\<rparr>,
             \<lparr>generator = ''COLLADA2GLTF*'', name = ''COLLADA2GLTF'', author = ''Khronos''\<rparr>,
             \<lparr>generator = ''COLLADA2GLTF*'', name = ''Other'', author = ''Other''\<rparr>]\<rparr>))
          = Some m
        \<and> report_generator m = Some 1)
   \<and> globTest (exampleEnv offline) = globMatch
   \<and> (\<exists>m. report (setReport (exampleEnv offline)
          \<lparr>info = Some \<lparr>info_generator = Some ''Blender''\<rparr>, issues = issues exampleReport\<rparr>
          (exampleWorld\<lparr>generators :=
            [\<lparr>generator = ''COLLADA2GLTF*'', name = ''COLLADA2GLTF'', author = ''Khronos''\<rparr>]\<rparr>))
          = Some m
        \<and> report_generator m = None)"
proof -
  let ?b = "\<lparr>generator = ''Blender'', name = ''Blender'', author = ''Blender''\<rparr>"
  let ?c = "\<lparr>generator = ''COLLADA2GLTF*'', name = ''COLLADA2GLTF'', author = ''Khronos''\<rparr>"
  let ?o = "\<lparr>generator = ''COLLADA2GLTF*'', name = ''Other'', author = ''Other''\<rparr>"
  let ?gid = "''COLLADA2GLTF v2.1.4''"
  let ?e = "exampleEnv offline"
  let ?r = "\<lparr>info = Some \<lparr>info_generator = Some ?gid\<rparr>, issues = issues exampleReport\<rparr>"
  let ?w = "exampleWorld\<lparr>generators := [?b, ?c, ?o]\<rparr>"
  let ?w1 = "exampleWorld\<lparr>generators := [?c]\<rparr>"
  note rest = conjunct2[OF conjunct2[OF conjunct2[OF conjunct2[OF conjunct2]]]]
  have plain: "CHR ''*'' \<notin> set (generator ?b)" and star: "CHR ''*'' \<in> set (generator ?c)"
    by simp_all
  have "CHR ''*'' \<notin> set (generator ?b) \<longrightarrow>
      matchesGenerator globMatch ?gid ?b = (generator ?b = ?gid)"
    by (rule conjunct1[OF conjunct2[OF conjunct2[OF rest[OF
        generator_identification[where g = globMatch and gid = ?gid and t = ?b]]]]])
  with plain have nb: "\<not> matchesGenerator globMatch ?gid ?b"
    by simp
  have "CHR ''*'' \<in> set (generator ?c) \<longrightarrow>
      matchesGenerator globMatch ?gid ?c = globMatch (generator ?c) ?gid"
    by (rule conjunct1[OF conjunct2[OF conjunct2[OF conjunct2[OF rest[OF
        generator_identification[where g = globMatch and gid = ?gid and t = ?c]]]]]])
  with star have mc: "matchesGenerator globMatch ?gid ?c"
    by simp
  have first: "\<forall>j<(1::nat). \<not> matchesGenerator globMatch ?gid ([?b, ?c, ?o] ! j)"
    using nb by simp
  have "findEntry (matchesGenerator globMatch ?gid) [?b, ?c, ?o] = Some 1 \<longleftrightarrow>
      1 < length [?b, ?c, ?o] \<and> matchesGenerator globMatch ?gid ([?b, ?c, ?o] ! 1)
      \<and> (\<forall>j<1. \<not> matchesGenerator globMatch ?gid ([?b, ?c, ?o] ! j))"
    by (rule conjunct1[OF rest[OF
        generator_identification[where g = globMatch and gid = ?gid
          and registry = "[?b, ?c, ?o]" and i = 1]]])
  with mc first have found: "findEntry (matchesGenerator globMatch ?gid) [?b, ?c, ?o] = Some 1"
    by simp
  have glob: "globTest ?e = globMatch"
    by (simp add: exampleEnv_def)
  have gid: "generatorID ?r = ?gid"
    by (rule conjunct1[OF conjunct2[OF
        generator_identification[where s = ?gid and iss = "issues exampleReport"]]])
  obtain m where m: "report (setReport ?e ?r ?w) = Some m"
      "report_generator m =
        findEntry (matchesGenerator (globTest ?e) (generatorID ?r)) (generators ?w)"
    using conjunct1[OF generator_identification[where e = ?e and r = ?r and w = ?w]]
    by (elim exE conjE)
  from m(2) have "report_generator m = Some 1"
    by (simp add: glob gid nb mc)
  with m(1) have stored: "\<exists>m. report (setReport ?e ?r ?w) = Some m
      \<and> report_generator m = Some 1"
    by (intro exI[of _ m] conjI)
  have gens: "generators ?w1 = [?c]"
    by simp
  have "globTest ?e = globMatch \<and> generators ?w1 = [?c] \<longrightarrow>
      (\<exists>m. report (setReport ?e
          \<lparr>info = Some \<lparr>info_generator = Some ?gid\<rparr>, issues = issues exampleReport\<rparr> ?w1)
            = Some m
         \<and> report_generator m = Some 0)
      \<and> (\<exists>m. report (setReport ?e
          \<lparr>info = Some \<lparr>info_generator = Some ''Blender''\<rparr>, issues = issues exampleReport\<rparr>
          ?w1) = Some m
         \<and> report_generator m = None)"
    by (rule conjunct1[OF conjunct2[OF conjunct2[OF conjunct2[OF conjunct2[OF
        generator_identification[where e = ?e and w = ?w1 and n = "''COLLADA2GLTF''"
          and a = "''Khronos''" and iss = "issues exampleReport"]]]]]])
  with glob gens have none: "\<exists>m. report (setReport ?e
        \<lparr>info = Some \<lparr>info_generator = Some ''Blender''\<rparr>, issues = issues exampleReport\<rparr>
        ?w1) = Some m
      \<and> report_generator m = None"
    by (elim impE conjE) (intro conjI, assumption+)
  show ?thesis
    by (intro conjI plain nb star mc found stored glob none)
qed

section \<open>Properties of the resolver and the runner\<close>

lemma replaceFirst_prefix:
  "prefix pat s \<Longrightarrow> replaceFirst pat rep s = rep @ drop (length pat) s"
  by (cases s) auto

lemma replaceFirst_absent:
  "\<not> sublist pat s \<Longrightarrow> replaceFirst pat rep s = s"
proof (induction s)
  case Nil
  then show ?case by auto
next
  case (Cons c s)
  then have "\<not> prefix pat (c # s)" and "\<not> sublist pat s"
    by (auto simp: sublist_Cons_right)
  with Cons.IH show ?case by simp
qed

lemma normalizedURL_as_specified:
  "prefix baseURL decoded \<or> \<not> sublist baseURL decoded \<Longrightarrow>
   normalizedURL rootPath baseURL decoded = specNormalizedURI rootPath baseURL decoded"
proof (cases "prefix baseURL decoded")
  case True
  then show ?thesis
    by (simp add: normalizedURL_def specNormalizedURI_def replaceFirst_prefix)
next
  case False
  assume "prefix baseURL decoded \<or> \<not> sublist baseURL decoded"
  with False have "\<not> sublist baseURL decoded"
    by simp
  with False show ?thesis
    by (simp add: normalizedURL_def specNormalizedURI_def replaceFirst_absent)
qed

lemma resolve_hit:
  assumes "decodeURI e uri = Inr decoded"
    and "assetMap (normalizedURL rootPath (extractUrlBase rootFile) decoded) = Some f"
    and "readError f = None"
  shows "resolveExternalResource e uri rootFile rootPath assetMap w =
    (Inr (content f),
     w\<lparr>objectURLs := (objectURLs w)(nextObjectURL w := None),
       nextObjectURL := Suc (nextObjectURL w),
       requests := requests w @ [ObjectURL (nextObjectURL w)]\<rparr>)"
  using assms
  by (simp add: resolveExternalResource_def Let_def createObjectURL_def fetch_def
      arrayBuffer_def revokeObjectURL_def)

lemma resolve_hit_unreadable:
  assumes "decodeURI e uri = Inr decoded"
    and "assetMap (normalizedURL rootPath (extractUrlBase rootFile) decoded) = Some f"
    and "readError f = Some err"
  shows "resolveExternalResource e uri rootFile rootPath assetMap w =
    (Inl err,
     w\<lparr>objectURLs := (objectURLs w)(nextObjectURL w \<mapsto> f),
       nextObjectURL := Suc (nextObjectURL w),
       requests := requests w @ [ObjectURL (nextObjectURL w)]\<rparr>)"
  using assms
  by (simp add: resolveExternalResource_def Let_def createObjectURL_def fetch_def
      arrayBuffer_def revokeObjectURL_def)

lemma resolve_miss:
  assumes "decodeURI e uri = Inr decoded"
    and "assetMap (normalizedURL rootPath (extractUrlBase rootFile) decoded) = None"
  shows "resolveExternalResource e uri rootFile rootPath assetMap w =
    ((case network e (extractUrlBase rootFile @ uri) of
        Inl err \<Rightarrow> Inl err
      | Inr resp \<Rightarrow> arrayBuffer resp),
     w\<lparr>requests := requests w @ [Location (extractUrlBase rootFile @ uri)]\<rparr>)"
  using assms
  by (auto simp add: resolveExternalResource_def Let_def fetch_def split: sum.splits)

lemma exampleEnv_fields:
  "decodeURI (exampleEnv net) s = Inr s"
  "network (exampleEnv net) = net"
  "validateBytes (exampleEnv net) = exampleValidator"
  by (simp_all add: exampleEnv_def)

lemma extractUrlBase_examples:
  "extractUrlBase ''model.gltf'' = ''./''"
  "extractUrlBase ''assets/model.gltf'' = ''assets/''"
  "extractUrlBase ''blob:http://localhost:3000/0f3a'' = ''blob:http://localhost:3000/''"
  by (simp_all add: extractUrlBase_def)

text \<open>
  C6, as amended. Let the canonical key be the root path followed by the decoded URI
  from which the first occurrence of the base directory, wherever it stands, and then
  one leading \<^verbatim>\<open>./\<close> or \<^verbatim>\<open>/\<close> were removed. If the key is in the asset map and
  its file can be read, the resolver returns exactly the bytes of that file, the only
  request it makes is for the object URL it created (no network request), and that
  URL is revoked afterwards. If the key is not in the asset map, the resolver makes
  exactly one request, to the network, for the base directory followed by the
  original URI, and returns what that request gives. The key is the one the
  specification words (the base directory stripped as a prefix) whenever the base
  directory is a prefix of the decoded URI or does not occur in it.
\<close>

theorem resolveExternalResource_resolution:
  assumes "decodeURI e uri = Inr decoded"
  shows
    "(\<forall>f. assetMap (normalizedURL rootPath (extractUrlBase rootFile) decoded) = Some f
          \<and> readError f = None \<longrightarrow>
        fst (resolveExternalResource e uri rootFile rootPath assetMap w) = Inr (content f)
        \<and> requests (snd (resolveExternalResource e uri rootFile rootPath assetMap w)) =
            requests w @ [ObjectURL (nextObjectURL w)]
        \<and> objectURLs (snd (resolveExternalResource e uri rootFile rootPath assetMap w))
            (nextObjectURL w) = None)
     \<and> (assetMap (normalizedURL rootPath (extractUrlBase rootFile) decoded) = None \<longrightarrow>
        requests (snd (resolveExternalResource e uri rootFile rootPath assetMap w)) =
            requests w @ [Location (extractUrlBase rootFile @ uri)]
        \<and> fst (resolveExternalResource e uri rootFile rootPath assetMap w) =
            (case network e (extractUrlBase rootFile @ uri) of
               Inl err \<Rightarrow> Inl err
             | Inr resp \<Rightarrow> arrayBuffer resp))
     \<and> (prefix (extractUrlBase rootFile) decoded \<or> \<not> sublist (extractUrlBase rootFile) decoded
          \<longrightarrow> normalizedURL rootPath (extractUrlBase rootFile) decoded =
            specNormalizedURI rootPath (extractUrlBase rootFile) decoded)"
proof (intro conjI allI impI)
  fix f
  assume hit: "assetMap (normalizedURL rootPath (extractUrlBase rootFile) decoded) = Some f
      \<and> readError f = None"
  have r: "resolveExternalResource e uri rootFile rootPath assetMap w =
      (Inr (content f),
       w\<lparr>objectURLs := (objectURLs w)(nextObjectURL w := None),
         nextObjectURL := Suc (nextObjectURL w),
         requests := requests w @ [ObjectURL (nextObjectURL w)]\<rparr>)"
    using assms hit by (intro resolve_hit[where decoded = decoded and f = f]) simp_all
  show "fst (resolveExternalResource e uri rootFile rootPath assetMap w) = Inr (content f)"
    by (simp add: r)
  show "requests (snd (resolveExternalResource e uri rootFile rootPath assetMap w)) =
      requests w @ [ObjectURL (nextObjectURL w)]"
    by (simp add: r)
  show "objectURLs (snd (resolveExternalResource e uri rootFile rootPath assetMap w))
      (nextObjectURL w) = None"
    by (simp add: r)
next
  assume miss: "assetMap (normalizedURL rootPath (extractUrlBase rootFile) decoded) = None"
  have r: "resolveExternalResource e uri rootFile rootPath assetMap w =
      ((case network e (extractUrlBase rootFile @ uri) of
          Inl err \<Rightarrow> Inl err
        | Inr resp \<Rightarrow> arrayBuffer resp),
       w\<lparr>requests := requests w @ [Location (extractUrlBase rootFile @ uri)]\<rparr>)"
    using assms miss by (intro resolve_miss[where decoded = decoded]) simp_all
  show "requests (snd (resolveExternalResource e uri rootFile rootPath assetMap w)) =
      requests w @ [Location (extractUrlBase rootFile @ uri)]"
    by (simp add: r)
  show "fst (resolveExternalResource e uri rootFile rootPath assetMap w) =
      (case network e (extractUrlBase rootFile @ uri) of
         Inl err \<Rightarrow> Inl err
       | Inr resp \<Rightarrow> arrayBuffer resp)"
    by (simp add: r)
next
  assume "prefix (extractUrlBase rootFile) decoded \<or> \<not> sublist (extractUrlBase rootFile) decoded"
  then show "normalizedURL rootPath (extractUrlBase rootFile) decoded =
      specNormalizedURI rootPath (extractUrlBase rootFile) decoded"
    by (rule normalizedURL_as_specified)
qed

theorem resolveExternalResource_resolution_witness:
  "decodeURI (exampleEnv serving) ''tex.png'' = Inr ''tex.png''
   \<and> normalizedURL ''scene/'' (extractUrlBase ''blob:http://localhost:3000/0f3a'') ''tex.png''
       = ''scene/tex.png''
   \<and> fst (resolveExternalResource (exampleEnv serving) ''tex.png''
        ''blob:http://localhost:3000/0f3a'' ''scene/''
        [''scene/tex.png'' \<mapsto> \<lparr>content = [1, 2, 3], readError = None\<rparr>] exampleWorld)
       = Inr [1, 2, 3]
   \<and> requests (snd (resolveExternalResource (exampleEnv serving) ''tex.png''
        ''blob:http://localhost:3000/0f3a'' ''scene/''
        [''scene/tex.png'' \<mapsto> \<lparr>content = [1, 2, 3], readError = None\<rparr>] exampleWorld))
       = [ObjectURL 0]
   \<and> requests (snd (resolveExternalResource (exampleEnv serving) ''tex.png''
        ''blob:http://localhost:3000/0f3a'' ''scene/'' Map.empty exampleWorld))
       = [Location ''blob:http://localhost:3000/tex.png'']
   \<and> fst (resolveExternalResource (exampleEnv serving) ''tex.png''
        ''blob:http://localhost:3000/0f3a'' ''scene/'' Map.empty exampleWorld)
       = Inr [0]"
proof -
  let ?e = "exampleEnv serving"
  let ?root = "''blob:http://localhost:3000/0f3a''"
  let ?f = "\<lparr>content = [1, 2, 3], readError = None\<rparr> :: asset_file"
  let ?m = "[''scene/tex.png'' \<mapsto> ?f]"
  have dec: "decodeURI ?e ''tex.png'' = Inr ''tex.png''"
    by (simp add: exampleEnv_fields)
  have key: "normalizedURL ''scene/'' (extractUrlBase ?root) ''tex.png'' = ''scene/tex.png''"
    by (simp add: extractUrlBase_examples normalizedURL_def stripLeadingSlash_def)
  have hit: "?m (normalizedURL ''scene/'' (extractUrlBase ?root) ''tex.png'') = Some ?f
      \<and> readError ?f = None"
    by (simp add: key)
  have miss: "Map.empty (normalizedURL ''scene/'' (extractUrlBase ?root) ''tex.png'') = None"
    by simp
  have a: "fst (resolveExternalResource ?e ''tex.png'' ?root ''scene/'' ?m exampleWorld)
        = Inr (content ?f)
      \<and> requests (snd (resolveExternalResource ?e ''tex.png'' ?root ''scene/'' ?m exampleWorld))
        = requests exampleWorld @ [ObjectURL (nextObjectURL exampleWorld)]"
    using resolveExternalResource_resolution[OF dec, of ?m "''scene/''" ?root exampleWorld] hit
    by blast
  have b: "requests (snd (resolveExternalResource ?e ''tex.png'' ?root ''scene/'' Map.empty
          exampleWorld))
        = requests exampleWorld @ [Location (extractUrlBase ?root @ ''tex.png'')]
      \<and> fst (resolveExternalResource ?e ''tex.png'' ?root ''scene/'' Map.empty exampleWorld)
        = (case network ?e (extractUrlBase ?root @ ''tex.png'') of
             Inl err \<Rightarrow> Inl err
           | Inr resp \<Rightarrow> arrayBuffer resp)"
    using resolveExternalResource_resolution[OF dec, of Map.empty "''scene/''" ?root
        exampleWorld] miss
    by blast
  from a b dec key show ?thesis
    by (simp add: exampleWorld_def extractUrlBase_examples exampleEnv_fields serving_def
        arrayBuffer_def)
qed

text \<open>
  C6 as the specification words it fails on two inputs. With the root file
  \<^verbatim>\<open>assets/model.gltf\<close> and the URI \<^verbatim>\<open>textures/assets/wood.png\<close> the base
  directory is not a prefix of the URI, so the specified key is the URI itself, and
  the asset map holds it; the resolver removes the \<^verbatim>\<open>assets/\<close> inside the URI,
  misses the map and answers from the network. And a file of the asset map that
  cannot be read gives an error, not its bytes.
\<close>

theorem resolveExternalResource_specified_key_missed:
  "specNormalizedURI '''' (extractUrlBase ''assets/model.gltf'') ''textures/assets/wood.png''
       = ''textures/assets/wood.png''
   \<and> [''textures/assets/wood.png'' \<mapsto> \<lparr>content = [1, 2, 3], readError = None\<rparr>]
        ''textures/assets/wood.png'' = Some \<lparr>content = [1, 2, 3], readError = None\<rparr>
   \<and> fst (resolveExternalResource (exampleEnv serving) ''textures/assets/wood.png''
        ''assets/model.gltf'' ''''
        [''textures/assets/wood.png'' \<mapsto> \<lparr>content = [1, 2, 3], readError = None\<rparr>]
        exampleWorld) = Inr [0]
   \<and> requests (snd (resolveExternalResource (exampleEnv serving) ''textures/assets/wood.png''
        ''assets/model.gltf'' ''''
        [''textures/assets/wood.png'' \<mapsto> \<lparr>content = [1, 2, 3], readError = None\<rparr>]
        exampleWorld)) = [Location ''assets/textures/assets/wood.png'']
   \<and> fst (resolveExternalResource (exampleEnv serving) ''tex.png'' ''model.gltf'' ''''
        [''tex.png'' \<mapsto> \<lparr>content = [1, 2, 3], readError = Some (Error ''NotReadableError'')\<rparr>]
        exampleWorld) = Inl (Error ''NotReadableError'')"
  by (simp add: specNormalizedURI_def extractUrlBase_examples stripLeadingSlash_def
      resolveExternalResource_def normalizedURL_def exampleEnv_fields serving_def
      createObjectURL_def fetch_def arrayBuffer_def exampleWorld_def Let_def)

text \<open>
  C4, on a file that cannot be read. The asset map is hit, the object URL 0 is
  created and fetched, the fetch is rejected, and the call ends with the error while
  the object URL is still live: \<^verbatim>\<open>revokeObjectURL\<close> stands only in the \<^verbatim>\<open>then\<close> that
  a rejected fetch skips.
\<close>

theorem resolveExternalResource_leaves_objectURL:
  "fst (resolveExternalResource (exampleEnv net) ''tex.png''
        ''blob:http://localhost:3000/0f3a'' ''scene/''
        [''scene/tex.png'' \<mapsto>
           \<lparr>content = [1, 2, 3], readError = Some (Error ''NotReadableError'')\<rparr>]
        exampleWorld) = Inl (Error ''NotReadableError'')
   \<and> objectURLs (snd (resolveExternalResource (exampleEnv net) ''tex.png''
        ''blob:http://localhost:3000/0f3a'' ''scene/''
        [''scene/tex.png'' \<mapsto>
           \<lparr>content = [1, 2, 3], readError = Some (Error ''NotReadableError'')\<rparr>]
        exampleWorld)) 0
       = Some \<lparr>content = [1, 2, 3], readError = Some (Error ''NotReadableError'')\<rparr>
   \<and> objectURLs exampleWorld 0 = None"
  by (simp add: extractUrlBase_examples stripLeadingSlash_def
      resolveExternalResource_def normalizedURL_def exampleEnv_fields
      createObjectURL_def fetch_def arrayBuffer_def exampleWorld_def Let_def)

lemma runValidator_cases:
  "runValidator e rootFile rootPath assetMap w =
     (case network e rootFile of
        Inl err \<Rightarrow> (Inl err, w\<lparr>requests := requests w @ [Location rootFile]\<rparr>)
      | Inr resp \<Rightarrow>
          (case arrayBuffer resp of
             Inl err \<Rightarrow> (Inl err, w\<lparr>requests := requests w @ [Location rootFile]\<rparr>)
           | Inr buffer \<Rightarrow>
               validateBytes e buffer
                 (\<lambda>uri. resolveExternalResource e uri rootFile rootPath assetMap)
                 (w\<lparr>requests := requests w @ [Location rootFile]\<rparr>)))"
  by (simp add: runValidator_def fetch_def split: sum.splits)

lemma setReportException_state:
  "report (setReportException err w) = None"
  "toggleContent (setReportException err w) = ExceptionToggle err 0"
  "toggleHidden (setReportException err w) = False"
  by (simp_all add: setReportException_def showToggle_def)

lemma showLightbox_no_report: "report w = None \<Longrightarrow> showLightbox w = w"
  by (simp add: showLightbox_def)

lemma setReport_state:
  "\<exists>n. report (setReport e r w) = Some n \<and> validated n = r
     \<and> toggleContent (setReport e r w) = ReportToggle (viewOf (setReport e r w) n)"
  "toggleHidden (setReport e r w) = False"
  by (simp_all add: setReport_def showToggle_def Let_def viewOf_def split: option.splits)

lemma validate_cases:
  "validate e rootFile rootPath assetMap w =
     (case fst (runValidator e rootFile rootPath assetMap w) of
        Inl err \<Rightarrow> setReportException err (snd (runValidator e rootFile rootPath assetMap w))
      | Inr r \<Rightarrow> setReport e r (snd (runValidator e rootFile rootPath assetMap w)))"
  by (simp add: validate_def split: prod.splits sum.splits)

lemma validate_exclusive:
  "(report (validate e rootFile rootPath assetMap w) = None) =
     (\<exists>err. toggleContent (validate e rootFile rootPath assetMap w) = ExceptionToggle err 0)"
  "(report (validate e rootFile rootPath assetMap w) \<noteq> None) =
     (\<exists>v. toggleContent (validate e rootFile rootPath assetMap w) = ReportToggle v)"
proof -
  show "(report (validate e rootFile rootPath assetMap w) = None) =
     (\<exists>err. toggleContent (validate e rootFile rootPath assetMap w) = ExceptionToggle err 0)"
  proof (cases "fst (runValidator e rootFile rootPath assetMap w)")
    case (Inl err)
    then show ?thesis
      by (simp add: validate_cases setReportException_state)
  next
    case (Inr r)
    then show ?thesis
      using setReport_state(1)[of e r "snd (runValidator e rootFile rootPath assetMap w)"]
      by (auto simp: validate_cases)
  qed
  show "(report (validate e rootFile rootPath assetMap w) \<noteq> None) =
     (\<exists>v. toggleContent (validate e rootFile rootPath assetMap w) = ReportToggle v)"
  proof (cases "fst (runValidator e rootFile rootPath assetMap w)")
    case (Inl err)
    then show ?thesis
      by (simp add: validate_cases setReportException_state)
  next
    case (Inr r)
    then show ?thesis
      using setReport_state(1)[of e r "snd (runValidator e rootFile rootPath assetMap w)"]
      by (auto simp: validate_cases)
  qed
qed

text \<open>
  C5, as amended. Every run of \<^verbatim>\<open>validate\<close> ends in exactly one of two ways. If the
  chain up to the validator was rejected with an error, the state is the one
  \<^verbatim>\<open>setReportException\<close> gives: no report is held, the toggle shows the exception
  (level 0) and is visible, and \<^verbatim>\<open>showLightbox\<close> changes nothing. If the chain gave a
  report, the state is the one \<^verbatim>\<open>setReport\<close> gives: the normalized report of that
  raw report is held and the toggle shows it. A report is held exactly when the toggle
  shows a report, and none exactly when it shows an exception, which is exactly when
  the chain was rejected. The chain is rejected when the fetch of the root file is
  rejected and when reading its bytes is rejected; otherwise its outcome is the
  validator's, run on those bytes with the resolver bound to the arguments. So a
  failure of the resolver ends in the exception state when the validator rejects
  with it, and only then: the controller has no other path from the resolver to
  \<^verbatim>\<open>setReportException\<close>.
\<close>

theorem validate_outcome:
  fixes e rootFile rootPath assetMap w
  defines "outcome \<equiv> runValidator e rootFile rootPath assetMap w"
    and "after \<equiv> validate e rootFile rootPath assetMap w"
  shows
    "(\<forall>err. fst outcome = Inl err \<longrightarrow>
        after = setReportException err (snd outcome) \<and> report after = None
        \<and> toggleContent after = ExceptionToggle err 0 \<and> \<not> toggleHidden after
        \<and> showLightbox after = after)
     \<and> (\<forall>r. fst outcome = Inr r \<longrightarrow>
        after = setReport e r (snd outcome)
        \<and> (\<exists>n. report after = Some n \<and> validated n = r
              \<and> toggleContent after = ReportToggle (viewOf after n))
        \<and> \<not> toggleHidden after)
     \<and> ((report after = None) = (\<exists>err. toggleContent after = ExceptionToggle err 0))
     \<and> ((report after \<noteq> None) = (\<exists>v. toggleContent after = ReportToggle v))
     \<and> (\<forall>err. network e rootFile = Inl err \<longrightarrow> fst outcome = Inl err)
     \<and> (\<forall>resp err. network e rootFile = Inr resp \<and> arrayBuffer resp = Inl err
          \<longrightarrow> fst outcome = Inl err)
     \<and> (\<forall>resp buffer. network e rootFile = Inr resp \<and> arrayBuffer resp = Inr buffer
          \<longrightarrow> outcome =
            validateBytes e buffer
              (\<lambda>uri. resolveExternalResource e uri rootFile rootPath assetMap)
              (w\<lparr>requests := requests w @ [Location rootFile]\<rparr>))
     \<and> ((report after = None) = (\<exists>err. fst outcome = Inl err))"
proof (intro conjI allI impI)
  fix err
  assume failed: "fst outcome = Inl err"
  then show exc: "after = setReportException err (snd outcome)"
    by (simp add: after_def outcome_def validate_cases)
  show "report after = None"
    by (simp add: exc setReportException_state)
  then show "showLightbox after = after"
    by (rule showLightbox_no_report)
  show "toggleContent after = ExceptionToggle err 0"
    by (simp add: exc setReportException_state)
  show "\<not> toggleHidden after"
    by (simp add: exc setReportException_state)
next
  fix r
  assume ok: "fst outcome = Inr r"
  then show rep: "after = setReport e r (snd outcome)"
    by (simp add: after_def outcome_def validate_cases)
  show "\<exists>n. report after = Some n \<and> validated n = r
      \<and> toggleContent after = ReportToggle (viewOf after n)"
    unfolding rep by (rule setReport_state)
  show "\<not> toggleHidden after"
    by (simp add: rep setReport_state)
next
  show "(report after = None) = (\<exists>err. toggleContent after = ExceptionToggle err 0)"
    unfolding after_def by (rule validate_exclusive)
  show "(report after \<noteq> None) = (\<exists>v. toggleContent after = ReportToggle v)"
    unfolding after_def by (rule validate_exclusive)
next
  fix err
  assume "network e rootFile = Inl err"
  then show "fst outcome = Inl err"
    by (simp add: outcome_def runValidator_cases)
next
  fix resp err
  assume "network e rootFile = Inr resp \<and> arrayBuffer resp = Inl err"
  then show "fst outcome = Inl err"
    by (simp add: outcome_def runValidator_cases)
next
  fix resp buffer
  assume "network e rootFile = Inr resp \<and> arrayBuffer resp = Inr buffer"
  then show "outcome =
      validateBytes e buffer
        (\<lambda>uri. resolveExternalResource e uri rootFile rootPath assetMap)
        (w\<lparr>requests := requests w @ [Location rootFile]\<rparr>)"
    by (simp add: outcome_def runValidator_cases)
next
  show "(report after = None) = (\<exists>err. fst outcome = Inl err)"
  proof (cases "fst outcome")
    case (Inl err)
    then show ?thesis
      unfolding after_def outcome_def by (simp add: validate_cases setReportException_state)
  next
    case (Inr r)
    then show ?thesis
      unfolding after_def outcome_def by (simp add: validate_cases setReport_report)
  qed
qed

theorem validate_outcome_witness:
  "network (exampleEnv offline) ''model.gltf'' = Inl (Error ''Failed to fetch'')
   \<and> report (validate (exampleEnv offline) ''model.gltf'' '''' Map.empty exampleWorld) = None
   \<and> toggleContent (validate (exampleEnv offline) ''model.gltf'' '''' Map.empty exampleWorld)
       = ExceptionToggle (Error ''Failed to fetch'') 0
   \<and> showLightbox (validate (exampleEnv offline) ''model.gltf'' '''' Map.empty exampleWorld)
       = validate (exampleEnv offline) ''model.gltf'' '''' Map.empty exampleWorld
   \<and> fst (runValidator (exampleEnv serving) ''model.gltf'' '''' Map.empty exampleWorld)
       = Inr exampleReport
   \<and> (\<exists>n. report (validate (exampleEnv serving) ''model.gltf'' '''' Map.empty exampleWorld)
          = Some n \<and> validated n = exampleReport)
   \<and> fst (runValidator (exampleEnv rootOnly) ''model.gltf'' '''' Map.empty exampleWorld)
       = Inl (Error ''Failed to fetch'')
   \<and> report (validate (exampleEnv rootOnly) ''model.gltf'' '''' Map.empty exampleWorld) = None"
proof -
  let ?root = "''model.gltf''"
  note run = runValidator_cases exampleEnv_fields arrayBuffer_def exampleValidator_def
    resolveExternalResource_def extractUrlBase_examples normalizedURL_def
    stripLeadingSlash_def fetch_def Let_def
  have off: "network (exampleEnv offline) ?root = Inl (Error ''Failed to fetch'')"
    by (simp add: exampleEnv_fields offline_def)
  have srv: "fst (runValidator (exampleEnv serving) ?root '''' Map.empty exampleWorld)
      = Inr exampleReport"
    by (simp add: run serving_def)
  have res: "fst (runValidator (exampleEnv rootOnly) ?root '''' Map.empty exampleWorld)
      = Inl (Error ''Failed to fetch'')"
    by (simp add: run rootOnly_def)
  note a = validate_outcome[where e = "exampleEnv offline" and rootFile = ?root
      and rootPath = "''''" and assetMap = Map.empty and w = exampleWorld]
  note b = validate_outcome[where e = "exampleEnv serving" and rootFile = ?root
      and rootPath = "''''" and assetMap = Map.empty and w = exampleWorld]
  note c = validate_outcome[where e = "exampleEnv rootOnly" and rootFile = ?root
      and rootPath = "''''" and assetMap = Map.empty and w = exampleWorld]
  from a off
  have "fst (runValidator (exampleEnv offline) ?root '''' Map.empty exampleWorld)
      = Inl (Error ''Failed to fetch'')"
    by blast
  with a
  have a': "report (validate (exampleEnv offline) ?root '''' Map.empty exampleWorld) = None
      \<and> toggleContent (validate (exampleEnv offline) ?root '''' Map.empty exampleWorld)
          = ExceptionToggle (Error ''Failed to fetch'') 0
      \<and> showLightbox (validate (exampleEnv offline) ?root '''' Map.empty exampleWorld)
          = validate (exampleEnv offline) ?root '''' Map.empty exampleWorld"
    by blast
  from b srv
  have b': "\<exists>n. report (validate (exampleEnv serving) ?root '''' Map.empty exampleWorld)
      = Some n \<and> validated n = exampleReport"
    by blast
  from c res
  have c': "report (validate (exampleEnv rootOnly) ?root '''' Map.empty exampleWorld) = None"
    by blast
  from off a' srv b' res c' show ?thesis
    by blast
qed

text \<open>
  C5 as stated fails for a failure of the resolver that the validator does not pass
  on. The root file is fetched, the validator asks the resolver for
  \<^verbatim>\<open>buffer.bin\<close>, the resolver's fetch of \<^verbatim>\<open>./buffer.bin\<close> is rejected, the
  validator records that as an issue and fulfils its promise: \<^verbatim>\<open>validate\<close> ends
  with a report held, the toggle does not show the exception, and
  \<^verbatim>\<open>showLightbox\<close> opens a tab.
\<close>

theorem validate_resolver_failure_absorbed:
  "fst (resolveExternalResource (absorbingEnv rootOnly) ''buffer.bin'' ''model.gltf'' ''''
          Map.empty (exampleWorld\<lparr>requests := [Location ''model.gltf'']\<rparr>))
       = Inl (Error ''Failed to fetch'')
   \<and> requests (validate (absorbingEnv rootOnly) ''model.gltf'' '''' Map.empty exampleWorld)
       = [Location ''model.gltf'', Location ''./buffer.bin'']
   \<and> (\<exists>n. report (validate (absorbingEnv rootOnly) ''model.gltf'' '''' Map.empty exampleWorld)
          = Some n
        \<and> validated n = ioErrorReport (Error ''Failed to fetch''))
   \<and> report (validate (absorbingEnv rootOnly) ''model.gltf'' '''' Map.empty exampleWorld)
       \<noteq> None
   \<and> toggleContent (validate (absorbingEnv rootOnly) ''model.gltf'' '''' Map.empty exampleWorld)
       \<noteq> ExceptionToggle (Error ''Failed to fetch'') 0
   \<and> tabs (showLightbox
        (validate (absorbingEnv rootOnly) ''model.gltf'' '''' Map.empty exampleWorld))
       \<noteq> tabs (validate (absorbingEnv rootOnly) ''model.gltf'' '''' Map.empty exampleWorld)"
proof -
  let ?e = "absorbingEnv rootOnly"
  let ?w1 = "exampleWorld\<lparr>requests := [Location ''model.gltf'']\<rparr>"
  let ?w2 = "exampleWorld\<lparr>requests := [Location ''model.gltf'', Location ''./buffer.bin'']\<rparr>"
  let ?after = "validate ?e ''model.gltf'' '''' Map.empty exampleWorld"
  note fields = absorbingEnv_def rootOnly_def
  have res: "resolveExternalResource ?e ''buffer.bin'' ''model.gltf'' '''' Map.empty ?w1
      = (Inl (Error ''Failed to fetch''), ?w2)"
    by (simp add: resolveExternalResource_def fields extractUrlBase_examples normalizedURL_def
        stripLeadingSlash_def fetch_def Let_def exampleWorld_def)
  have run: "runValidator ?e ''model.gltf'' '''' Map.empty exampleWorld
      = (Inr (ioErrorReport (Error ''Failed to fetch'')), ?w2)"
  proof -
    have "runValidator ?e ''model.gltf'' '''' Map.empty exampleWorld
        = absorbingValidator [0]
            (\<lambda>uri. resolveExternalResource ?e uri ''model.gltf'' '''' Map.empty) ?w1"
      by (simp add: runValidator_cases fields arrayBuffer_def exampleWorld_def)
    then show ?thesis
      by (simp add: absorbingValidator_def res)
  qed
  have after: "?after = setReport ?e (ioErrorReport (Error ''Failed to fetch'')) ?w2"
    by (simp add: validate_def run)
  have held: "\<exists>n. report ?after = Some n
      \<and> validated n = ioErrorReport (Error ''Failed to fetch'')"
    by (simp add: after setReport_report)
  have req: "requests ?after = [Location ''model.gltf'', Location ''./buffer.bin'']"
    unfolding after by (simp add: setReport_def Let_def showToggle_def)
  have some: "report ?after \<noteq> None"
    by (simp add: after setReport_report)
  have toggle: "toggleContent ?after \<noteq> ExceptionToggle (Error ''Failed to fetch'') 0"
    by (simp add: after setReport_def Let_def showToggle_def)
  have tab: "tabs (showLightbox ?after) \<noteq> tabs ?after"
    using some by (auto simp: showLightbox_def)
  have r1: "fst (resolveExternalResource ?e ''buffer.bin'' ''model.gltf'' '''' Map.empty ?w1)
      = Inl (Error ''Failed to fetch'')"
    by (simp add: res)
  show ?thesis
    by (intro conjI r1 req held some toggle tab)
qed

lemma renameGenerator_name:
  "name (renameGenerator t) = (if name t \<noteq> author t then name t @ '' by '' @ author t else name t)"
  "author (renameGenerator t) = author t"
  "generator (renameGenerator t) = generator t"
  by (simp_all add: renameGenerator_def)

text \<open>
  C3, on two reports of the same generator. The registry entry
  \<^verbatim>\<open>{name: "Foo", author: "Bar"}\<close> is found by the first \<^verbatim>\<open>setReport\<close>, which writes
  \<^verbatim>\<open>Foo by Bar\<close> into the entry itself; the second \<^verbatim>\<open>setReport\<close> finds the same
  entry, whose name still differs from its author, and writes
  \<^verbatim>\<open>Foo by Bar by Bar\<close>, which is what the toggle then shows.
\<close>

theorem setReport_appends_author_again:
  "map name (generators (setReport e exampleReport exampleWorld)) = [''Foo by Bar'']
   \<and> displayedName (toggleContent (setReport e exampleReport exampleWorld))
       = Some ''Foo by Bar''
   \<and> map name (generators (setReport e exampleReport (setReport e exampleReport exampleWorld)))
       = [''Foo by Bar by Bar'']
   \<and> displayedName
        (toggleContent (setReport e exampleReport (setReport e exampleReport exampleWorld)))
       = Some ''Foo by Bar by Bar''"
  by (simp add: setReport_def exampleReport_def exampleWorld_def generatorID_def
      matchesGenerator_def rewriteRegistry_def renameGenerator_def showToggle_def Let_def
      viewOf_def displayedName_def)

end
